theory Spec2Isabelle
  imports Complex_Main "HOL-Library.Monad_Syntax" "HOL-Library.Word"
begin

section \<open>Data model\<close>

text \<open>
  Storage is addressed by block: a tensor's \<open>data\<close> and \<open>tensor_params\<close> pointers name a
  block, either one bound by the caller (\<open>Heap\<close>) or one of the call stack (\<open>Stack\<close>).
  A block holds the sequence of scalars of the tensor; a pointer to a block that does not
  exist is a dangling pointer, and dereferencing it has no defined result (\<open>None\<close>).
\<close>

datatype addr = Heap nat | Stack nat

type_synonym 'v memory = "addr \<Rightarrow> 'v list option"

text \<open>
  \<open>aitensor_t\<close> is declared in a header that is not among the source files; the record
  has the fields that the source files read and write. \<open>dtype\<close> is the pointer to the
  data-type descriptor, \<open>shape\<close> the pointer to the shape sequence (two tensors share a
  shape exactly when these pointers are equal), \<open>data\<close> and \<open>tensor_params\<close> the storage
  pointers.
\<close>

record aitensor =
  dtype :: nat
  dim :: int
  shape :: nat
  data :: addr
  tensor_params :: addr

type_synonym lref = nat

datatype aicore_layertype = Ailayer_sigmoid_type | Ailayer_leaky_relu_type | Other_layertype nat

datatype callback =
    Fn_ailayer_sigmoid_forward
  | Fn_ailayer_sigmoid_backward
  | Fn_ailayer_sigmoid_calc_result_shape
  | Fn_ailayer_leaky_relu_forward
  | Fn_ailayer_leaky_relu_backward
  | Fn_ailayer_leaky_relu_calc_result_shape
  | Fn_other nat

text \<open>
  \<open>ailayer_t\<close>, declared in the same header: the fields the initializers assign. A
  pointer field is an \<open>option\<close>: \<open>None\<close> is the null pointer. The callbacks are
  function pointers; \<open>callback\<close> names the functions they can point to.
\<close>

record ailayer =
  layer_type :: "aicore_layertype option"
  layer_configuration :: "lref option"
  input_layer :: "lref option"
  output_layer :: "lref option"
  result :: aitensor
  deltas :: aitensor
  forward :: "callback option"
  backward :: "callback option"
  calc_result_shape :: "callback option"
  sizeof_paramem :: "callback option"
  set_paramem :: "callback option"
  sizeof_trainmem :: "callback option"
  set_trainmem :: "callback option"
  trainable_params_count :: nat

text \<open>
  The math functions are function pointers of the layer structs. A kernel receives the
  tensor descriptors and acts on the storage they point to.
\<close>

type_synonym 'v kernel2 = "aitensor \<Rightarrow> aitensor \<Rightarrow> 'v memory \<Rightarrow> 'v memory option"
type_synonym 'v kernel_alpha = "aitensor \<Rightarrow> addr \<Rightarrow> aitensor \<Rightarrow> 'v memory \<Rightarrow> 'v memory option"
type_synonym 'v kernel3 = "aitensor \<Rightarrow> aitensor \<Rightarrow> aitensor \<Rightarrow> 'v memory \<Rightarrow> 'v memory option"

text \<open>
  The members of \<open>ailayer_sigmoid_t\<close> (those that \<open>ailayer_sigmoid.c\<close> uses) and of
  \<open>ailayer_leaky_relu_t\<close> (\<open>ailayer_leaky_relu.h\<close>) after \<open>base\<close>. The \<open>base\<close> member of the
  struct at address \<open>l\<close> is the entry \<open>l\<close> of \<open>layers\<close>, so that \<open>&(layer->base)\<close> and
  \<open>layer\<close> are the same address. The prefixes \<open>sg_\<close> and \<open>lr_\<close> tell the two \<open>dtype\<close> and
  \<open>multiply\<close> members apart.
\<close>

record 'v ailayer_sigmoid_t =
  sg_dtype :: nat
  sigmoid :: "'v kernel2"
  d_sigmoid :: "'v kernel2"
  sg_multiply :: "'v kernel3"

record 'v ailayer_leaky_relu_t =
  lr_dtype :: nat
  alpha :: addr
  leaky_relu :: "'v kernel_alpha"
  d_leaky_relu :: "'v kernel_alpha"
  lr_multiply :: "'v kernel3"

text \<open>
  The program state: the layer structs, the storage blocks, and the call stack. The stack
  holds the blocks \<open>Stack 0\<close>, ..., \<open>Stack (sp - 1)\<close>; \<open>stack_size\<close> is the byte size each
  stack block was declared with. Leaving a function lowers \<open>sp\<close> only: a dead block keeps
  its contents until the next function call declares a block in its place, which then
  starts with those stale contents.
\<close>

record 'v state =
  layers :: "lref \<Rightarrow> ailayer option"
  sigmoid_layers :: "lref \<Rightarrow> 'v ailayer_sigmoid_t option"
  leaky_relu_layers :: "lref \<Rightarrow> 'v ailayer_leaky_relu_t option"
  mem :: "'v memory"
  sp :: nat
  stack_size :: "nat \<Rightarrow> nat"

definition live :: "'v state \<Rightarrow> addr \<Rightarrow> bool" where
  "live s a = (case a of Heap n \<Rightarrow> True | Stack i \<Rightarrow> i < sp s)"

definition set_base :: "lref \<Rightarrow> (ailayer \<Rightarrow> ailayer) \<Rightarrow> 'v state \<Rightarrow> 'v state option" where
  "set_base l f s =
     (case layers s l of
        None \<Rightarrow> None
      | Some b \<Rightarrow> Some (s\<lparr>layers := (layers s)(l \<mapsto> f b)\<rparr>))"

text \<open>Declaring a local array of \<open>n\<close> bytes: the next stack block, with its stale contents.\<close>

definition alloca :: "nat \<Rightarrow> 'v state \<Rightarrow> addr \<times> 'v state" where
  "alloca n s =
     (Stack (sp s),
      s\<lparr>mem := (case mem s (Stack (sp s)) of
                  None \<Rightarrow> (mem s)(Stack (sp s) \<mapsto> [])
                | Some old \<Rightarrow> mem s),
        sp := Suc (sp s),
        stack_size := (stack_size s)(sp s := n)\<rparr>)"

section \<open>Sigmoid layer\<close>

definition ailayer_sigmoid :: "lref \<Rightarrow> lref \<Rightarrow> 'v state \<Rightarrow> (lref \<times> 'v state) option" where
  "ailayer_sigmoid layer inp_layer s0 = do {
     s \<leftarrow> set_base layer (\<lambda>b. b\<lparr>layer_type := Some Ailayer_sigmoid_type\<rparr>) s0;
     s \<leftarrow> set_base layer (\<lambda>b. b\<lparr>input_layer := Some inp_layer\<rparr>) s;
     s \<leftarrow> set_base inp_layer (\<lambda>b. b\<lparr>output_layer := Some layer\<rparr>) s;
     s \<leftarrow> set_base layer (\<lambda>b. b\<lparr>layer_configuration := Some layer\<rparr>) s;
     cfg \<leftarrow> sigmoid_layers s layer;
     s \<leftarrow> set_base layer (\<lambda>b. b\<lparr>result := (result b)\<lparr>dtype := sg_dtype cfg\<rparr>\<rparr>) s;
     pre \<leftarrow> layers s inp_layer;
     s \<leftarrow> set_base layer (\<lambda>b. b\<lparr>result := (result b)\<lparr>dim := dim (result pre)\<rparr>\<rparr>) s;
     pre \<leftarrow> layers s inp_layer;
     s \<leftarrow> set_base layer (\<lambda>b. b\<lparr>result := (result b)\<lparr>shape := shape (result pre)\<rparr>\<rparr>) s;
     s \<leftarrow> set_base layer (\<lambda>b. b\<lparr>deltas := (deltas b)\<lparr>dtype := sg_dtype cfg\<rparr>\<rparr>) s;
     s \<leftarrow> set_base layer (\<lambda>b. b\<lparr>deltas := (deltas b)\<lparr>dim := 2\<rparr>\<rparr>) s;
     s \<leftarrow> set_base layer (\<lambda>b. b\<lparr>deltas := (deltas b)\<lparr>shape := shape (result b)\<rparr>\<rparr>) s;
     s \<leftarrow> set_base layer (\<lambda>b. b\<lparr>forward := Some Fn_ailayer_sigmoid_forward\<rparr>) s;
     s \<leftarrow> set_base layer (\<lambda>b. b\<lparr>backward := Some Fn_ailayer_sigmoid_backward\<rparr>) s;
     s \<leftarrow> set_base layer (\<lambda>b. b\<lparr>calc_result_shape := Some Fn_ailayer_sigmoid_calc_result_shape\<rparr>) s;
     s \<leftarrow> set_base layer (\<lambda>b. b\<lparr>sizeof_paramem := None\<rparr>) s;
     s \<leftarrow> set_base layer (\<lambda>b. b\<lparr>set_paramem := None\<rparr>) s;
     s \<leftarrow> set_base layer (\<lambda>b. b\<lparr>sizeof_trainmem := None\<rparr>) s;
     s \<leftarrow> set_base layer (\<lambda>b. b\<lparr>set_trainmem := None\<rparr>) s;
     s \<leftarrow> set_base layer (\<lambda>b. b\<lparr>trainable_params_count := 0\<rparr>) s;
     Some (layer, s)
   }"

definition ailayer_sigmoid_forward :: "lref \<Rightarrow> 'v state \<Rightarrow> 'v state option" where
  "ailayer_sigmoid_forward self s = do {
     b \<leftarrow> layers s self;
     c \<leftarrow> layer_configuration b;
     layer \<leftarrow> sigmoid_layers s c;
     i \<leftarrow> input_layer b;
     ib \<leftarrow> layers s i;
     let x_in = result ib;
     let x_out = result b;
     m \<leftarrow> sigmoid layer x_in x_out (mem s);
     Some (s\<lparr>mem := m\<rparr>)
   }"

text \<open>
  \<open>aimath_sizeof_tensor_params\<close> and \<open>aimath_sizeof_tensor_data\<close> are declared in
  \<open>aimath_basic.h\<close>; the backward pass takes them as the parameters \<open>szp\<close> and \<open>szd\<close>.
  They return a byte count in an unsigned integer type of fixed width; the width is the
  type parameter \<open>'w\<close>. The \<open>+ 1\<close> of the first array size is computed in that type, so
  it wraps around to 0 at the type's maximum. The two local arrays are declared in the
  order of the source, the tensor \<open>temp_result\<close> is built on them, the three kernels run,
  and returning releases the frame.
\<close>

definition ailayer_sigmoid_backward ::
  "(aitensor \<Rightarrow> 'w::len word) \<Rightarrow> (aitensor \<Rightarrow> 'w word) \<Rightarrow> lref \<Rightarrow> 'v state \<Rightarrow> 'v state option" where
  "ailayer_sigmoid_backward szp szd self s = do {
     b \<leftarrow> layers s self;
     c \<leftarrow> layer_configuration b;
     layer \<leftarrow> sigmoid_layers s c;
     let delta_in = deltas b;
     out \<leftarrow> output_layer b;
     ob \<leftarrow> layers s out;
     let delta_out = deltas ob;
     i \<leftarrow> input_layer b;
     ib \<leftarrow> layers s i;
     let x_in = result ib;
     let (temp_result_params, s1) = alloca (unat (szp x_in + 1)) s;
     let (temp_result_data, s2) = alloca (unat (szd x_in)) s1;
     let temp_result = \<lparr>dtype = dtype x_in, dim = 2, shape = shape x_in,
                         data = temp_result_data, tensor_params = temp_result_params\<rparr>;
     m1 \<leftarrow> sigmoid layer x_in temp_result (mem s2);
     m2 \<leftarrow> d_sigmoid layer temp_result temp_result m1;
     m3 \<leftarrow> sg_multiply layer temp_result delta_out delta_in m2;
     Some (s2\<lparr>mem := m3, sp := sp s\<rparr>)
   }"

definition ailayer_sigmoid_calc_result_shape :: "lref \<Rightarrow> 'v state \<Rightarrow> 'v state option" where
  "ailayer_sigmoid_calc_result_shape self s = Some s"

section \<open>Leaky ReLU layer\<close>

definition ailayer_leaky_relu :: "lref \<Rightarrow> lref \<Rightarrow> 'v state \<Rightarrow> (lref \<times> 'v state) option" where
  "ailayer_leaky_relu layer inp_layer s0 = do {
     s \<leftarrow> set_base layer (\<lambda>b. b\<lparr>layer_type := Some Ailayer_leaky_relu_type\<rparr>) s0;
     s \<leftarrow> set_base layer (\<lambda>b. b\<lparr>input_layer := Some inp_layer\<rparr>) s;
     s \<leftarrow> set_base inp_layer (\<lambda>b. b\<lparr>output_layer := Some layer\<rparr>) s;
     s \<leftarrow> set_base layer (\<lambda>b. b\<lparr>layer_configuration := Some layer\<rparr>) s;
     cfg \<leftarrow> leaky_relu_layers s layer;
     s \<leftarrow> set_base layer (\<lambda>b. b\<lparr>result := (result b)\<lparr>dtype := lr_dtype cfg\<rparr>\<rparr>) s;
     pre \<leftarrow> layers s inp_layer;
     s \<leftarrow> set_base layer (\<lambda>b. b\<lparr>result := (result b)\<lparr>shape := shape (result pre)\<rparr>\<rparr>) s;
     pre \<leftarrow> layers s inp_layer;
     s \<leftarrow> set_base layer (\<lambda>b. b\<lparr>result := (result b)\<lparr>dim := dim (result pre)\<rparr>\<rparr>) s;
     s \<leftarrow> set_base layer (\<lambda>b. b\<lparr>deltas := (deltas b)\<lparr>dtype := lr_dtype cfg\<rparr>\<rparr>) s;
     s \<leftarrow> set_base layer (\<lambda>b. b\<lparr>deltas := (deltas b)\<lparr>dim := 2\<rparr>\<rparr>) s;
     s \<leftarrow> set_base layer (\<lambda>b. b\<lparr>deltas := (deltas b)\<lparr>shape := shape (result b)\<rparr>\<rparr>) s;
     s \<leftarrow> set_base layer (\<lambda>b. b\<lparr>forward := Some Fn_ailayer_leaky_relu_forward\<rparr>) s;
     s \<leftarrow> set_base layer (\<lambda>b. b\<lparr>backward := Some Fn_ailayer_leaky_relu_backward\<rparr>) s;
     s \<leftarrow> set_base layer (\<lambda>b. b\<lparr>calc_result_shape := Some Fn_ailayer_leaky_relu_calc_result_shape\<rparr>) s;
     s \<leftarrow> set_base layer (\<lambda>b. b\<lparr>sizeof_paramem := None\<rparr>) s;
     s \<leftarrow> set_base layer (\<lambda>b. b\<lparr>set_paramem := None\<rparr>) s;
     s \<leftarrow> set_base layer (\<lambda>b. b\<lparr>sizeof_trainmem := None\<rparr>) s;
     s \<leftarrow> set_base layer (\<lambda>b. b\<lparr>set_trainmem := None\<rparr>) s;
     s \<leftarrow> set_base layer (\<lambda>b. b\<lparr>trainable_params_count := 0\<rparr>) s;
     Some (layer, s)
   }"

definition ailayer_leaky_relu_forward :: "lref \<Rightarrow> 'v state \<Rightarrow> 'v state option" where
  "ailayer_leaky_relu_forward self s = do {
     b \<leftarrow> layers s self;
     c \<leftarrow> layer_configuration b;
     layer \<leftarrow> leaky_relu_layers s c;
     i \<leftarrow> input_layer b;
     ib \<leftarrow> layers s i;
     let x_in = result ib;
     let x_out = result b;
     m \<leftarrow> leaky_relu layer x_in (alpha layer) x_out (mem s);
     Some (s\<lparr>mem := m\<rparr>)
   }"

definition ailayer_leaky_relu_backward :: "lref \<Rightarrow> 'v state \<Rightarrow> 'v state option" where
  "ailayer_leaky_relu_backward self s = do {
     b \<leftarrow> layers s self;
     c \<leftarrow> layer_configuration b;
     layer \<leftarrow> leaky_relu_layers s c;
     let delta_in = deltas b;
     out \<leftarrow> output_layer b;
     ob \<leftarrow> layers s out;
     let delta_out = deltas ob;
     i \<leftarrow> input_layer b;
     ib \<leftarrow> layers s i;
     let x_in = result ib;
     m1 \<leftarrow> d_leaky_relu layer x_in (alpha layer) delta_in (mem s);
     m2 \<leftarrow> lr_multiply layer delta_in delta_out delta_in m1;
     Some (s\<lparr>mem := m2\<rparr>)
   }"

definition ailayer_leaky_relu_calc_result_shape :: "lref \<Rightarrow> 'v state \<Rightarrow> 'v state option" where
  "ailayer_leaky_relu_calc_result_shape self s = Some s"

section \<open>Math kernels\<close>

text \<open>
  Modelled from the spec: the data-type specific math functions that a layer's function
  pointers are set to are not among the source files. The spec (sections 2 and 6) and the
  documentation of the function pointers in \<open>ailayer_leaky_relu.h\<close> describe them as
  elementwise operations from the input tensor(s) to the result tensor. An elementwise
  kernel reads the storage of its inputs and overwrites the storage of its result; it is
  undefined on a dangling pointer.
\<close>

definition ew_unary :: "('v \<Rightarrow> 'v) \<Rightarrow> 'v kernel2" where
  "ew_unary f x r m = do {
     xs \<leftarrow> m (data x);
     old \<leftarrow> m (data r);
     Some (m(data r \<mapsto> map f xs))
   }"

text \<open>
  Modelled from the spec: reading the scalar behind a \<open>void *\<close> parameter such as
  \<open>alpha\<close>, the first scalar of the block it points to (spec section 6: kernels take an
  input tensor, a scalar parameter and an output tensor).
\<close>

definition read_scalar :: "'v memory \<Rightarrow> addr \<Rightarrow> 'v option" where
  "read_scalar m a = (case m a of None \<Rightarrow> None | Some [] \<Rightarrow> None | Some (v # vs) \<Rightarrow> Some v)"

text \<open>
  Modelled from the spec: an elementwise kernel with a scalar parameter, the shape of
  \<open>leaky_relu\<close> and \<open>d_leaky_relu\<close> in \<open>ailayer_leaky_relu.h\<close>.
\<close>

definition ew_alpha :: "('v \<Rightarrow> 'v \<Rightarrow> 'v) \<Rightarrow> 'v kernel_alpha" where
  "ew_alpha f x al r m = do {
     xs \<leftarrow> m (data x);
     a \<leftarrow> read_scalar m al;
     old \<leftarrow> m (data r);
     Some (m(data r \<mapsto> map (f a) xs))
   }"

text \<open>
  Modelled from the spec: an elementwise kernel of two input tensors, the shape of
  \<open>multiply\<close>. The result has an element for every position that both inputs have.
\<close>

definition ew_binary :: "('v \<Rightarrow> 'v \<Rightarrow> 'v) \<Rightarrow> 'v kernel3" where
  "ew_binary f a b r m = do {
     as \<leftarrow> m (data a);
     bs \<leftarrow> m (data b);
     old \<leftarrow> m (data r);
     Some (m(data r \<mapsto> map2 f as bs))
   }"

text \<open>
  Modelled from the spec: the Leaky ReLU function of one element, from the formula at the
  function pointer \<open>leaky_relu\<close> of \<open>ailayer_leaky_relu.h\<close> and section 4.2 of the spec,
  on real numbers (rounding of the machine representation is not modelled).
\<close>

definition leaky_relu_fn :: "real \<Rightarrow> real \<Rightarrow> real" where
  "leaky_relu_fn a x = (if x < 0 then a * x else x)"

text \<open>
  Modelled from the spec: the derivative of Leaky ReLU at one element, from the formula at
  the function pointer \<open>d_leaky_relu\<close> of \<open>ailayer_leaky_relu.h\<close> and section 4.2 of the
  spec, on real numbers.
\<close>

definition d_leaky_relu_fn :: "real \<Rightarrow> real \<Rightarrow> real" where
  "d_leaky_relu_fn a x = (if x < 0 then a else 1)"

text \<open>
  Modelled from the spec: the sigmoid of one element, from section 4.3 of the spec
  (\<open>activate(x) = 1/(1+e^-x)\<close>), on real numbers.
\<close>

definition sigmoid_fn :: "real \<Rightarrow> real" where
  "sigmoid_fn x = 1 / (1 + exp (- x))"

text \<open>
  Modelled from the spec: the derivative of the sigmoid in terms of the sigmoid output
  \<open>s\<close>, from section 4.3 of the spec (\<open>derivative(s) = s(1-s)\<close>), on real numbers.
\<close>

definition d_sigmoid_fn :: "real \<Rightarrow> real" where
  "d_sigmoid_fn s = s * (1 - s)"

text \<open>
  Modelled from the spec: the product of two elements, for the kernel \<open>multiply\<close>
  (\<open>result = a \<circ> b\<close> in \<open>ailayer_leaky_relu.h\<close>), on real numbers.
\<close>

definition multiply_fn :: "real \<Rightarrow> real \<Rightarrow> real" where
  "multiply_fn a b = a * b"

section \<open>Reading a node's neighbourhood\<close>

definition sigmoid_config :: "'v state \<Rightarrow> lref \<Rightarrow> 'v ailayer_sigmoid_t option" where
  "sigmoid_config s self = do {
     b \<leftarrow> layers s self; c \<leftarrow> layer_configuration b; sigmoid_layers s c }"

definition leaky_relu_config :: "'v state \<Rightarrow> lref \<Rightarrow> 'v ailayer_leaky_relu_t option" where
  "leaky_relu_config s self = do {
     b \<leftarrow> layers s self; c \<leftarrow> layer_configuration b; leaky_relu_layers s c }"

definition predecessor :: "'v state \<Rightarrow> lref \<Rightarrow> ailayer option" where
  "predecessor s self = do { b \<leftarrow> layers s self; i \<leftarrow> input_layer b; layers s i }"

definition successor :: "'v state \<Rightarrow> lref \<Rightarrow> ailayer option" where
  "successor s self = do { b \<leftarrow> layers s self; out \<leftarrow> output_layer b; layers s out }"

text \<open>The contents of a tensor's storage, when the storage is a live block.\<close>

definition contents :: "'v state \<Rightarrow> aitensor \<Rightarrow> 'v list option" where
  "contents s t = (if live s (data t) then mem s (data t) else None)"

text \<open>The contents of a tensor's storage after a call, when the call returns.\<close>

definition contents_after :: "'v state option \<Rightarrow> aitensor \<Rightarrow> 'v list option" where
  "contents_after r t = (case r of None \<Rightarrow> None | Some s \<Rightarrow> contents s t)"

text \<open>
  The layer structs, the configured kernels and the stack pointer are the same in two
  states: no link, shape, dimensionality, data type or storage pointer differs.
\<close>

definition same_graph :: "'v state \<Rightarrow> 'v state \<Rightarrow> bool" where
  "same_graph s s' =
     (layers s' = layers s \<and> sigmoid_layers s' = sigmoid_layers s
      \<and> leaky_relu_layers s' = leaky_relu_layers s \<and> sp s' = sp s)"

text \<open>
  A kernel that writes nothing but the storage of its result tensor (its data and its
  tensor parameters).
\<close>

definition writes_result_only2 :: "'v kernel2 \<Rightarrow> bool" where
  "writes_result_only2 k =
     (\<forall>x r m m' a. k x r m = Some m' \<longrightarrow> a \<noteq> data r \<longrightarrow> a \<noteq> tensor_params r \<longrightarrow> m' a = m a)"

definition writes_result_only_alpha :: "'v kernel_alpha \<Rightarrow> bool" where
  "writes_result_only_alpha k =
     (\<forall>x al r m m' a. k x al r m = Some m' \<longrightarrow> a \<noteq> data r \<longrightarrow> a \<noteq> tensor_params r \<longrightarrow> m' a = m a)"

definition writes_result_only3 :: "'v kernel3 \<Rightarrow> bool" where
  "writes_result_only3 k =
     (\<forall>x y r m m' a. k x y r m = Some m' \<longrightarrow> a \<noteq> data r \<longrightarrow> a \<noteq> tensor_params r \<longrightarrow> m' a = m a)"

text \<open>The data type of the result tensor of node \<open>l\<close> after an initializer call.\<close>

definition result_dtype_after :: "(lref \<times> 'v state) option \<Rightarrow> lref \<Rightarrow> nat option" where
  "result_dtype_after r l =
     (case r of
        None \<Rightarrow> None
      | Some (h, s) \<Rightarrow> (case layers s l of None \<Rightarrow> None | Some b \<Rightarrow> Some (dtype (result b))))"

text \<open>
  The locals of \<open>ailayer_sigmoid_backward\<close>, for stating what a call does: the state once
  the two arrays are declared, and the tensor \<open>temp_result\<close> built on them.
\<close>

definition enter_backward ::
  "(aitensor \<Rightarrow> 'w::len word) \<Rightarrow> (aitensor \<Rightarrow> 'w word) \<Rightarrow> aitensor \<Rightarrow> 'v state \<Rightarrow> 'v state" where
  "enter_backward szp szd x_in s =
     snd (alloca (unat (szd x_in)) (snd (alloca (unat (szp x_in + 1)) s)))"

definition scratch_tensor :: "'v state \<Rightarrow> aitensor \<Rightarrow> aitensor" where
  "scratch_tensor s x_in =
     \<lparr>dtype = dtype x_in, dim = 2, shape = shape x_in,
      data = Stack (Suc (sp s)), tensor_params = Stack (sp s)\<rparr>"

text \<open>Calling an operation \<open>n\<close> times in a row.\<close>

fun repeat :: "nat \<Rightarrow> ('s \<Rightarrow> 's option) \<Rightarrow> 's \<Rightarrow> 's option" where
  "repeat 0 f s = Some s"
| "repeat (Suc n) f s = (case f s of None \<Rightarrow> None | Some s' \<Rightarrow> repeat n f s')"

text \<open>What an initializer leaves in the node \<open>b\<close> and in its predecessor \<open>p\<close>.\<close>

definition links_wired :: "lref \<Rightarrow> lref \<Rightarrow> ailayer \<Rightarrow> ailayer \<Rightarrow> bool" where
  "links_wired layer inp b p =
     (input_layer b = Some inp \<and> output_layer p = Some layer \<and> layer_configuration b = Some layer)"

definition callbacks_installed :: "callback \<Rightarrow> callback \<Rightarrow> callback \<Rightarrow> ailayer \<Rightarrow> bool" where
  "callbacks_installed f bk cs b =
     (forward b = Some f \<and> backward b = Some bk \<and> calc_result_shape b = Some cs
      \<and> sizeof_paramem b = None \<and> set_paramem b = None
      \<and> sizeof_trainmem b = None \<and> set_trainmem b = None)"

section \<open>Example networks\<close>

text \<open>
  A chain of four nodes: an input node 0, a Leaky ReLU node 1, a Sigmoid node 2 and a
  closing node 3. The result of node \<open>k\<close> is stored in block \<open>Heap k\<close>, its deltas in
  \<open>Heap (10 + k)\<close>, the slope of the Leaky ReLU node in \<open>Heap 20\<close>.
\<close>

definition node ::
  "aicore_layertype \<Rightarrow> lref option \<Rightarrow> lref option \<Rightarrow> lref option \<Rightarrow> callback option \<Rightarrow> callback option
    \<Rightarrow> callback option \<Rightarrow> nat \<Rightarrow> ailayer" where
  "node ty cfg i out f bk cs k =
     \<lparr>layer_type = Some ty, layer_configuration = cfg, input_layer = i, output_layer = out,
      result = \<lparr>dtype = 1, dim = 2, shape = 40, data = Heap k, tensor_params = Heap 30\<rparr>,
      deltas = \<lparr>dtype = 1, dim = 2, shape = 40, data = Heap (10 + k), tensor_params = Heap 30\<rparr>,
      forward = f, backward = bk, calc_result_shape = cs,
      sizeof_paramem = None, set_paramem = None, sizeof_trainmem = None, set_trainmem = None,
      trainable_params_count = 0\<rparr>"

definition input_node :: ailayer where
  "input_node = node (Other_layertype 0) (Some 0) None (Some 1) None None None 0"

definition leaky_relu_node :: ailayer where
  "leaky_relu_node =
     node Ailayer_leaky_relu_type (Some 1) (Some 0) (Some 2)
       (Some Fn_ailayer_leaky_relu_forward) (Some Fn_ailayer_leaky_relu_backward)
       (Some Fn_ailayer_leaky_relu_calc_result_shape) 1"

definition sigmoid_node :: ailayer where
  "sigmoid_node =
     node Ailayer_sigmoid_type (Some 2) (Some 1) (Some 3)
       (Some Fn_ailayer_sigmoid_forward) (Some Fn_ailayer_sigmoid_backward)
       (Some Fn_ailayer_sigmoid_calc_result_shape) 2"

definition closing_node :: ailayer where
  "closing_node =
     node (Other_layertype 1) (Some 3) (Some 2) None (Some (Fn_other 0)) (Some (Fn_other 1))
       (Some (Fn_other 2)) 3"

definition demo_layers :: "lref \<Rightarrow> ailayer option" where
  "demo_layers = [0 \<mapsto> input_node, 1 \<mapsto> leaky_relu_node, 2 \<mapsto> sigmoid_node, 3 \<mapsto> closing_node]"

definition demo_sigmoid :: "real ailayer_sigmoid_t" where
  "demo_sigmoid =
     \<lparr>sg_dtype = 1, sigmoid = ew_unary sigmoid_fn, d_sigmoid = ew_unary d_sigmoid_fn,
      sg_multiply = ew_binary multiply_fn\<rparr>"

definition demo_leaky_relu :: "real ailayer_leaky_relu_t" where
  "demo_leaky_relu =
     \<lparr>lr_dtype = 1, alpha = Heap 20, leaky_relu = ew_alpha leaky_relu_fn,
      d_leaky_relu = ew_alpha d_leaky_relu_fn, lr_multiply = ew_binary multiply_fn\<rparr>"

definition demo_net :: "real memory \<Rightarrow> real state" where
  "demo_net m =
     \<lparr>layers = demo_layers, sigmoid_layers = [2 \<mapsto> demo_sigmoid],
      leaky_relu_layers = [1 \<mapsto> demo_leaky_relu], mem = m, sp = 0, stack_size = (\<lambda>i. 0)\<rparr>"

text \<open>
  Scenario A of the spec, at the Leaky ReLU node 1: predecessor result \<open>[-2, 0, 3]\<close>,
  successor gradient \<open>g\<close>, slope \<open>0.1\<close>; the node's own gradient slot holds \<open>d\<close>.
\<close>

definition scenario_A :: "real list \<Rightarrow> real list \<Rightarrow> real state" where
  "scenario_A d g =
     demo_net [Heap 0 \<mapsto> [- 2, 0, 3], Heap 1 \<mapsto> [0, 0, 0], Heap 11 \<mapsto> d, Heap 12 \<mapsto> g,
               Heap 20 \<mapsto> [1 / 10]]"

text \<open>
  Scenario B of the spec, at the Sigmoid node 2: predecessor result \<open>[0]\<close>, successor
  gradient \<open>[1]\<close>. The node's own gradient slot holds \<open>d\<close>, and the dead stack block that
  the next call will use for its data holds \<open>junk\<close>.
\<close>

definition scenario_B :: "real list \<Rightarrow> real list \<Rightarrow> real state" where
  "scenario_B d junk =
     demo_net [Heap 1 \<mapsto> [0], Heap 2 \<mapsto> [7], Heap 12 \<mapsto> d, Heap 13 \<mapsto> [1],
               Stack 1 \<mapsto> junk]"

text \<open>
  Example values for \<open>aimath_sizeof_tensor_params\<close> and \<open>aimath_sizeof_tensor_data\<close>, as
  32-bit unsigned integers: a data type without tensor parameters, and a payload of four
  bytes.
\<close>

definition no_params :: "aitensor \<Rightarrow> 32 word" where
  "no_params t = 0"

definition four_bytes :: "aitensor \<Rightarrow> 32 word" where
  "four_bytes t = 4"

text \<open>
  The byte size that the block behind a pointer was declared with, for a block of the
  stack (the sizes of the blocks bound by the caller are not part of the state).
\<close>

definition block_bytes :: "'v state \<Rightarrow> addr \<Rightarrow> nat option" where
  "block_bytes s a = (case a of Heap n \<Rightarrow> None | Stack i \<Rightarrow> Some (stack_size s i))"

text \<open>The byte size the stack block \<open>i\<close> was declared with during a call.\<close>

definition declared_size :: "'v state option \<Rightarrow> nat \<Rightarrow> nat option" where
  "declared_size r i = (case r of None \<Rightarrow> None | Some s \<Rightarrow> Some (stack_size s i))"

text \<open>
  Before the initializers run: node 0 is initialized and has a three-dimensional result of
  data type 1; the structs at 1 and 2 hold arbitrary values, and their \<open>dtype\<close> members
  are configured with the data types 2 and 1.
\<close>

definition raw_layer :: ailayer where
  "raw_layer =
     \<lparr>layer_type = None, layer_configuration = None, input_layer = None, output_layer = None,
      result = \<lparr>dtype = 9, dim = 9, shape = 9, data = Heap 9, tensor_params = Heap 9\<rparr>,
      deltas = \<lparr>dtype = 8, dim = 8, shape = 8, data = Heap 8, tensor_params = Heap 8\<rparr>,
      forward = None, backward = None, calc_result_shape = None,
      sizeof_paramem = Some (Fn_other 3), set_paramem = Some (Fn_other 4),
      sizeof_trainmem = Some (Fn_other 5), set_trainmem = Some (Fn_other 6),
      trainable_params_count = 7\<rparr>"

definition raw_input_node :: ailayer where
  "raw_input_node =
     (node (Other_layertype 0) (Some 0) None None None None None 0)
       \<lparr>result := \<lparr>dtype = 1, dim = 3, shape = 40, data = Heap 0, tensor_params = Heap 30\<rparr>\<rparr>"

definition raw_leaky_relu :: "real ailayer_leaky_relu_t" where
  "raw_leaky_relu = demo_leaky_relu\<lparr>lr_dtype := 2\<rparr>"

definition raw_net :: "real state" where
  "raw_net =
     \<lparr>layers = [0 \<mapsto> raw_input_node, 1 \<mapsto> raw_layer, 2 \<mapsto> raw_layer],
      sigmoid_layers = [2 \<mapsto> demo_sigmoid],
      leaky_relu_layers = [1 \<mapsto> raw_leaky_relu],
      mem = Map.empty, sp = 0, stack_size = (\<lambda>i. 0)\<rparr>"

section \<open>Basic facts\<close>

lemma contents_SomeD:
  "contents s t = Some xs \<Longrightarrow> live s (data t) \<and> mem s (data t) = Some xs"
  by (simp add: contents_def split: if_splits)

lemma live_Stack: "live s (Stack i) = (i < sp s)"
  by (simp add: live_def)

lemma live_not_scratch:
  "live s a \<Longrightarrow> a \<noteq> Stack (sp s) \<and> a \<noteq> Stack (Suc (sp s))"
  by (auto simp: live_def)

lemma neighbourhood_unfold:
  assumes "layers s self = Some b" "predecessor s self = Some ib" "successor s self = Some ob"
  shows "\<exists>i out. input_layer b = Some i \<and> layers s i = Some ib \<and> output_layer b = Some out \<and> layers s out = Some ob"
  using assms by (auto simp: predecessor_def successor_def split: Option.bind_splits)

lemma sigmoid_config_unfold:
  assumes "layers s self = Some b" "sigmoid_config s self = Some layer"
  shows "\<exists>c. layer_configuration b = Some c \<and> sigmoid_layers s c = Some layer"
  using assms by (auto simp: sigmoid_config_def split: Option.bind_splits)

lemma sigmoid_backward_unfold:
  assumes self: "layers s self = Some b" and cfg: "sigmoid_config s self = Some layer"
    and nb: "predecessor s self = Some ib" "successor s self = Some ob"
  shows "ailayer_sigmoid_backward szp szd self s =
    (case sigmoid layer (result ib) (scratch_tensor s (result ib)) (mem (enter_backward szp szd (result ib) s)) of
       None \<Rightarrow> None
     | Some m1 \<Rightarrow>
      (case d_sigmoid layer (scratch_tensor s (result ib)) (scratch_tensor s (result ib)) m1 of
         None \<Rightarrow> None
       | Some m2 \<Rightarrow>
        (case sg_multiply layer (scratch_tensor s (result ib)) (deltas ob) (deltas b) m2 of
           None \<Rightarrow> None
         | Some m3 \<Rightarrow> Some ((enter_backward szp szd (result ib) s)\<lparr>mem := m3, sp := sp s\<rparr>))))"
proof -
  obtain i out where l: "input_layer b = Some i" "layers s i = Some ib" "output_layer b = Some out" "layers s out = Some ob"
    using neighbourhood_unfold[OF self nb] by blast
  obtain c where c: "layer_configuration b = Some c" "sigmoid_layers s c = Some layer"
    using sigmoid_config_unfold[OF self cfg] by blast
  show ?thesis
    using self l c
    by (simp add: ailayer_sigmoid_backward_def alloca_def enter_backward_def scratch_tensor_def Let_def
        split: option.splits)
qed

lemma enter_backward_simps:
  "sp (enter_backward szp szd x s) = Suc (Suc (sp s))"
  "layers (enter_backward szp szd x s) = layers s"
  "sigmoid_layers (enter_backward szp szd x s) = sigmoid_layers s"
  "leaky_relu_layers (enter_backward szp szd x s) = leaky_relu_layers s"
  "stack_size (enter_backward szp szd x s)
     = (stack_size s)(sp s := unat (szp x + 1), Suc (sp s) := unat (szd x))"
  by (simp_all add: enter_backward_def alloca_def)

lemma enter_backward_mem_live:
  "live s a \<Longrightarrow> mem (enter_backward szp szd x s) a = mem s a"
  by (cases a) (auto simp: enter_backward_def alloca_def live_def split: option.splits)

lemma enter_backward_mem_scratch:
  "\<exists>old. mem (enter_backward szp szd x s) (Stack (Suc (sp s))) = Some old"
  "\<exists>old. mem (enter_backward szp szd x s) (Stack (sp s)) = Some old"
  by (auto simp: enter_backward_def alloca_def split: option.splits)

text \<open>Unfolding the example networks.\<close>

lemmas demo_defs = scenario_B_def scenario_A_def demo_net_def demo_layers_def sigmoid_node_def
  leaky_relu_node_def input_node_def closing_node_def node_def demo_sigmoid_def demo_leaky_relu_def
  sigmoid_config_def leaky_relu_config_def predecessor_def successor_def contents_def live_def

section \<open>Sigmoid backward pass, step by step\<close>

text \<open>
  Claim C1. One backward call of a Sigmoid node whose kernels are elementwise runs three
  steps in this order: the sigmoid kernel fills the scratch tensor from the predecessor's
  result; the derivative kernel is applied to the scratch tensor in place, so that it acts
  on the recomputed sigmoid output and not on the raw input; the multiply kernel writes
  the elementwise product of the scratch tensor and the successor's deltas into the node's
  own deltas.
\<close>

theorem sigmoid_backward_steps:
  assumes self: "layers s self = Some b" and cfg: "sigmoid_config s self = Some layer"
    and nb: "predecessor s self = Some ib" "successor s self = Some ob"
    and k: "sigmoid layer = ew_unary act" "d_sigmoid layer = ew_unary der" "sg_multiply layer = ew_binary mul"
    and x: "contents s (result ib) = Some xs" and g: "contents s (deltas ob) = Some gs"
    and d: "contents s (deltas b) = Some ds"
  shows "\<exists>m1 m2 m3.
      sigmoid layer (result ib) (scratch_tensor s (result ib)) (mem (enter_backward szp szd (result ib) s)) = Some m1
    \<and> m1 (data (scratch_tensor s (result ib))) = Some (map act xs)
    \<and> d_sigmoid layer (scratch_tensor s (result ib)) (scratch_tensor s (result ib)) m1 = Some m2
    \<and> m2 (data (scratch_tensor s (result ib))) = Some (map der (map act xs))
    \<and> sg_multiply layer (scratch_tensor s (result ib)) (deltas ob) (deltas b) m2 = Some m3
    \<and> m3 (data (deltas b)) = Some (map2 mul (map der (map act xs)) gs)
    \<and> ailayer_sigmoid_backward szp szd self s
        = Some ((enter_backward szp szd (result ib) s)\<lparr>mem := m3, sp := sp s\<rparr>)"
proof -
  let ?s2 = "enter_backward szp szd (result ib) s"
  let ?t = "scratch_tensor s (result ib)"
  note X = contents_SomeD[OF x] and G = contents_SomeD[OF g] and D = contents_SomeD[OF d]
  have dt: "data ?t = Stack (Suc (sp s))" by (simp add: scratch_tensor_def)
  have nx: "data (result ib) \<noteq> data ?t" and ng: "data (deltas ob) \<noteq> data ?t"
    and nd: "data (deltas b) \<noteq> data ?t"
    using live_not_scratch X G D dt by metis+
  obtain old where old: "mem ?s2 (data ?t) = Some old"
    using enter_backward_mem_scratch(1) dt by metis
  have mx: "mem ?s2 (data (result ib)) = Some xs" and mg: "mem ?s2 (data (deltas ob)) = Some gs"
    and md: "mem ?s2 (data (deltas b)) = Some ds"
    using X G D by (simp_all add: enter_backward_mem_live)
  define m1 where "m1 = (mem ?s2)(data ?t \<mapsto> map act xs)"
  define m2 where "m2 = m1(data ?t \<mapsto> map der (map act xs))"
  define m3 where "m3 = m2(data (deltas b) \<mapsto> map2 mul (map der (map act xs)) gs)"
  have s1: "sigmoid layer (result ib) ?t (mem ?s2) = Some m1"
    by (simp add: k ew_unary_def mx old m1_def)
  have s2: "d_sigmoid layer ?t ?t m1 = Some m2"
    by (simp add: k ew_unary_def m1_def m2_def)
  have s3: "sg_multiply layer ?t (deltas ob) (deltas b) m2 = Some m3"
    using ng nd by (simp add: k ew_binary_def m1_def m2_def m3_def mg md)
  have run: "ailayer_sigmoid_backward szp szd self s = Some (?s2\<lparr>mem := m3, sp := sp s\<rparr>)"
    by (simp add: sigmoid_backward_unfold[OF self cfg nb] s1 s2 s3)
  have "m1 (data ?t) = Some (map act xs)" "m2 (data ?t) = Some (map der (map act xs))"
    "m3 (data (deltas b)) = Some (map2 mul (map der (map act xs)) gs)"
    by (simp_all add: m1_def m2_def m3_def)
  with s1 s2 s3 run show ?thesis by blast
qed

theorem sigmoid_backward_steps_witness:
  "layers (scenario_B [9] [42]) 2 = Some sigmoid_node
   \<and> sigmoid_config (scenario_B [9] [42]) 2 = Some demo_sigmoid
   \<and> predecessor (scenario_B [9] [42]) 2 = Some leaky_relu_node
   \<and> successor (scenario_B [9] [42]) 2 = Some closing_node
   \<and> sigmoid demo_sigmoid = ew_unary sigmoid_fn
   \<and> d_sigmoid demo_sigmoid = ew_unary d_sigmoid_fn
   \<and> sg_multiply demo_sigmoid = ew_binary multiply_fn
   \<and> contents (scenario_B [9] [42]) (result leaky_relu_node) = Some [0]
   \<and> contents (scenario_B [9] [42]) (deltas closing_node) = Some [1]
   \<and> contents (scenario_B [9] [42]) (deltas sigmoid_node) = Some [9]
   \<and> (\<exists>s'. ailayer_sigmoid_backward no_params four_bytes 2 (scenario_B [9] [42]) = Some s'
        \<and> mem s' (data (deltas sigmoid_node)) = Some [1 / 4])"
proof -
  have h1: "layers (scenario_B [9] [42]) 2 = Some sigmoid_node"
    and h2: "sigmoid_config (scenario_B [9] [42]) 2 = Some demo_sigmoid"
    and h3: "predecessor (scenario_B [9] [42]) 2 = Some leaky_relu_node"
    and h4: "successor (scenario_B [9] [42]) 2 = Some closing_node"
    and h5: "sigmoid demo_sigmoid = ew_unary sigmoid_fn"
    and h6: "d_sigmoid demo_sigmoid = ew_unary d_sigmoid_fn"
    and h7: "sg_multiply demo_sigmoid = ew_binary multiply_fn"
    and h8: "contents (scenario_B [9] [42]) (result leaky_relu_node) = Some [0]"
    and h9: "contents (scenario_B [9] [42]) (deltas closing_node) = Some [1]"
    and h10: "contents (scenario_B [9] [42]) (deltas sigmoid_node) = Some [9]"
    by (simp_all add: demo_defs)
  have v: "map2 multiply_fn (map d_sigmoid_fn (map sigmoid_fn [0])) [1] = [1 / 4]"
    by (simp add: multiply_fn_def d_sigmoid_fn_def sigmoid_fn_def)
  from sigmoid_backward_steps[OF h1 h2 h3 h4 h5 h6 h7 h8 h9 h10, of no_params four_bytes]
  have "\<exists>s'. ailayer_sigmoid_backward no_params four_bytes 2 (scenario_B [9] [42]) = Some s'
        \<and> mem s' (data (deltas sigmoid_node)) = Some [1 / 4]"
    unfolding v by auto
  with h1 h2 h3 h4 h5 h6 h7 h8 h9 h10 show ?thesis by blast
qed

section \<open>The scratch tensor of the Sigmoid backward pass\<close>

lemma sigmoid_backward_returns:
  assumes self: "layers s self = Some b" and cfg: "sigmoid_config s self = Some layer"
    and nb: "predecessor s self = Some ib" "successor s self = Some ob"
    and run: "ailayer_sigmoid_backward szp szd self s = Some s'"
  shows "\<exists>m3. s' = (enter_backward szp szd (result ib) s)\<lparr>mem := m3, sp := sp s\<rparr>"
  using run unfolding sigmoid_backward_unfold[OF self cfg nb]
  by (auto split: option.splits)

text \<open>
  Claim C2 as stated fails: with a data type that has no tensor parameters
  (\<open>aimath_sizeof_tensor_params\<close> gives 0), the array \<open>temp_result_params\<close> is declared
  with one byte, not zero.
\<close>

theorem sigmoid_backward_scratch_counterexample:
  "tensor_params (scratch_tensor (scenario_B [9] [42]) (result leaky_relu_node)) = Stack 0
   \<and> declared_size (ailayer_sigmoid_backward no_params four_bytes 2 (scenario_B [9] [42])) 0
       \<noteq> Some (unat (no_params (result leaky_relu_node)))"
  by (simp add: declared_size_def ailayer_sigmoid_backward_def alloca_def demo_defs Let_def
      ew_unary_def ew_binary_def no_params_def four_bytes_def scratch_tensor_def)

lemma unat_plus_one:
  fixes x :: "'w::len word"
  assumes "x \<noteq> - 1"
  shows "unat (x + 1) = unat x + 1"
proof -
  have "1 + x \<noteq> 0" using assms by (simp add: eq_neg_iff_add_eq_0 add.commute)
  then have "unat (1 + x) = Suc (unat x)" by (rule unatSuc)
  then show ?thesis by (simp add: add.commute)
qed

text \<open>
  Claim C2, amended. On every backward call of a Sigmoid node that returns, the three
  kernels are called on one scratch tensor whose \<open>tensor_params\<close> and \<open>data\<close> point to two
  distinct stack blocks that are not live before the call. The parameter block is declared
  with the predecessor result's parameter byte count plus one, the sum taken in the size
  type (so one byte more than the count whenever the count is below the type's maximum);
  the data block is declared with exactly the predecessor result's payload byte count. On
  return the stack pointer is back where it was, so both blocks are released, and no layer
  struct has changed, so no tensor of the graph refers to them.
\<close>

theorem sigmoid_backward_scratch:
  assumes self: "layers s self = Some b" and cfg: "sigmoid_config s self = Some layer"
    and nb: "predecessor s self = Some ib" "successor s self = Some ob"
    and run: "ailayer_sigmoid_backward szp szd self s = Some s'"
  shows "ailayer_sigmoid_backward szp szd self s =
      (case sigmoid layer (result ib) (scratch_tensor s (result ib))
              (mem (enter_backward szp szd (result ib) s)) of
         None \<Rightarrow> None
       | Some m1 \<Rightarrow>
        (case d_sigmoid layer (scratch_tensor s (result ib)) (scratch_tensor s (result ib)) m1 of
           None \<Rightarrow> None
         | Some m2 \<Rightarrow>
          (case sg_multiply layer (scratch_tensor s (result ib)) (deltas ob) (deltas b) m2 of
             None \<Rightarrow> None
           | Some m3 \<Rightarrow> Some ((enter_backward szp szd (result ib) s)\<lparr>mem := m3, sp := sp s\<rparr>))))
    \<and> block_bytes s' (tensor_params (scratch_tensor s (result ib)))
        = Some (unat (szp (result ib) + 1))
    \<and> (szp (result ib) \<noteq> - 1
        \<longrightarrow> block_bytes s' (tensor_params (scratch_tensor s (result ib)))
            = Some (unat (szp (result ib)) + 1))
    \<and> block_bytes s' (data (scratch_tensor s (result ib))) = Some (unat (szd (result ib)))
    \<and> tensor_params (scratch_tensor s (result ib)) = Stack (sp s)
    \<and> data (scratch_tensor s (result ib)) = Stack (Suc (sp s))
    \<and> \<not> live s (tensor_params (scratch_tensor s (result ib)))
    \<and> \<not> live s (data (scratch_tensor s (result ib)))
    \<and> sp s' = sp s
    \<and> \<not> live s' (tensor_params (scratch_tensor s (result ib)))
    \<and> \<not> live s' (data (scratch_tensor s (result ib)))
    \<and> layers s' = layers s"
proof -
  obtain m3 where s': "s' = (enter_backward szp szd (result ib) s)\<lparr>mem := m3, sp := sp s\<rparr>"
    using sigmoid_backward_returns[OF self cfg nb run] by blast
  have sizes: "block_bytes s' (tensor_params (scratch_tensor s (result ib)))
        = Some (unat (szp (result ib) + 1))"
    "block_bytes s' (data (scratch_tensor s (result ib))) = Some (unat (szd (result ib)))"
    by (simp_all add: s' enter_backward_simps scratch_tensor_def block_bytes_def)
  have plus: "szp (result ib) \<noteq> - 1
        \<longrightarrow> block_bytes s' (tensor_params (scratch_tensor s (result ib)))
            = Some (unat (szp (result ib)) + 1)"
    using sizes(1) by (simp add: unat_plus_one)
  have rest: "tensor_params (scratch_tensor s (result ib)) = Stack (sp s)
    \<and> data (scratch_tensor s (result ib)) = Stack (Suc (sp s))
    \<and> \<not> live s (tensor_params (scratch_tensor s (result ib)))
    \<and> \<not> live s (data (scratch_tensor s (result ib)))
    \<and> sp s' = sp s
    \<and> \<not> live s' (tensor_params (scratch_tensor s (result ib)))
    \<and> \<not> live s' (data (scratch_tensor s (result ib)))
    \<and> layers s' = layers s"
    by (simp add: s' enter_backward_simps scratch_tensor_def live_Stack)
  from sigmoid_backward_unfold[OF self cfg nb, of szp szd] sizes plus rest
  show ?thesis by blast
qed

lemma scenario_B_backward:
  "ailayer_sigmoid_backward no_params four_bytes 2 (scenario_B d junk) =
     Some ((scenario_B d junk)\<lparr>mem := (mem (scenario_B d junk))
              (Stack 0 \<mapsto> [], Stack 1 \<mapsto> [1 / 4], Heap 12 \<mapsto> [1 / 4]),
            stack_size := (\<lambda>i. 0)(0 := 1, 1 := 4)\<rparr>)"
  by (simp add: ailayer_sigmoid_backward_def alloca_def demo_defs Let_def
      ew_unary_def ew_binary_def no_params_def four_bytes_def
      multiply_fn_def d_sigmoid_fn_def sigmoid_fn_def)

theorem sigmoid_backward_scratch_witness:
  "layers (scenario_B [9] [42]) 2 = Some sigmoid_node
   \<and> sigmoid_config (scenario_B [9] [42]) 2 = Some demo_sigmoid
   \<and> predecessor (scenario_B [9] [42]) 2 = Some leaky_relu_node
   \<and> successor (scenario_B [9] [42]) 2 = Some closing_node
   \<and> ailayer_sigmoid_backward no_params four_bytes 2 (scenario_B [9] [42])
       = Some (the (ailayer_sigmoid_backward no_params four_bytes 2 (scenario_B [9] [42])))
   \<and> no_params (result leaky_relu_node) \<noteq> - 1
   \<and> block_bytes (the (ailayer_sigmoid_backward no_params four_bytes 2 (scenario_B [9] [42])))
        (tensor_params (scratch_tensor (scenario_B [9] [42]) (result leaky_relu_node))) = Some 1
   \<and> block_bytes (the (ailayer_sigmoid_backward no_params four_bytes 2 (scenario_B [9] [42])))
        (data (scratch_tensor (scenario_B [9] [42]) (result leaky_relu_node))) = Some 4
   \<and> sp (the (ailayer_sigmoid_backward no_params four_bytes 2 (scenario_B [9] [42]))) = 0"
proof -
  let ?s = "scenario_B [9] [42]"
  have h1: "layers ?s 2 = Some sigmoid_node"
    and h2: "sigmoid_config ?s 2 = Some demo_sigmoid"
    and h3: "predecessor ?s 2 = Some leaky_relu_node"
    and h4: "successor ?s 2 = Some closing_node"
    by (simp_all add: demo_defs)
  have h5: "ailayer_sigmoid_backward no_params four_bytes 2 ?s
       = Some (the (ailayer_sigmoid_backward no_params four_bytes 2 ?s))"
    by (simp add: scenario_B_backward)
  have h6: "no_params (result leaky_relu_node) \<noteq> - 1" by (simp add: no_params_def)
  have sp0: "sp ?s = 0" by (simp add: demo_defs)
  note T = sigmoid_backward_scratch[OF h1 h2 h3 h4 h5]
  have c1: "block_bytes (the (ailayer_sigmoid_backward no_params four_bytes 2 ?s))
        (tensor_params (scratch_tensor ?s (result leaky_relu_node))) = Some 1"
    using T[THEN conjunct2, THEN conjunct2, THEN conjunct1, rule_format, OF h6]
    by (simp add: no_params_def)
  have c2: "block_bytes (the (ailayer_sigmoid_backward no_params four_bytes 2 ?s))
        (data (scratch_tensor ?s (result leaky_relu_node))) = Some 4"
    using T[THEN conjunct2, THEN conjunct2, THEN conjunct2, THEN conjunct1]
    by (simp add: four_bytes_def)
  from T have "sp (the (ailayer_sigmoid_backward no_params four_bytes 2 ?s)) = sp ?s"
    by blast
  then have c3: "sp (the (ailayer_sigmoid_backward no_params four_bytes 2 ?s)) = 0"
    by (simp add: sp0)
  from h1 h2 h3 h4 h5 h6 c1 c2 c3 show ?thesis by blast
qed

section \<open>Leaky ReLU backward pass, step by step\<close>

lemma leaky_relu_config_unfold:
  assumes "layers s self = Some b" "leaky_relu_config s self = Some layer"
  shows "\<exists>c. layer_configuration b = Some c \<and> leaky_relu_layers s c = Some layer"
  using assms by (auto simp: leaky_relu_config_def split: Option.bind_splits)

lemma leaky_relu_backward_unfold:
  assumes self: "layers s self = Some b" and cfg: "leaky_relu_config s self = Some layer"
    and nb: "predecessor s self = Some ib" "successor s self = Some ob"
  shows "ailayer_leaky_relu_backward self s =
    (case d_leaky_relu layer (result ib) (alpha layer) (deltas b) (mem s) of
       None \<Rightarrow> None
     | Some m1 \<Rightarrow>
      (case lr_multiply layer (deltas b) (deltas ob) (deltas b) m1 of
         None \<Rightarrow> None
       | Some m2 \<Rightarrow> Some (s\<lparr>mem := m2\<rparr>)))"
proof -
  obtain i out where l: "input_layer b = Some i" "layers s i = Some ib" "output_layer b = Some out" "layers s out = Some ob"
    using neighbourhood_unfold[OF self nb] by blast
  obtain c where c: "layer_configuration b = Some c" "leaky_relu_layers s c = Some layer"
    using leaky_relu_config_unfold[OF self cfg] by blast
  show ?thesis
    using self l c
    by (simp add: ailayer_leaky_relu_backward_def Let_def split: option.splits)
qed

lemma leaky_relu_backward_summary:
  assumes self: "layers s self = Some b" and cfg: "leaky_relu_config s self = Some layer"
    and nb: "predecessor s self = Some ib" "successor s self = Some ob"
    and k: "d_leaky_relu layer = ew_alpha dfn" "lr_multiply layer = ew_binary mul"
    and a: "read_scalar (mem s) (alpha layer) = Some a"
    and x: "mem s (data (result ib)) = Some xs" and g: "mem s (data (deltas ob)) = Some gs"
    and d: "mem s (data (deltas b)) = Some ds"
    and apart: "data (deltas b) \<noteq> data (deltas ob)"
  shows "d_leaky_relu layer (result ib) (alpha layer) (deltas b) (mem s)
        = Some ((mem s)(data (deltas b) \<mapsto> map (dfn a) xs))"
    and "lr_multiply layer (deltas b) (deltas ob) (deltas b) ((mem s)(data (deltas b) \<mapsto> map (dfn a) xs))
        = Some ((mem s)(data (deltas b) \<mapsto> map2 mul (map (dfn a) xs) gs))"
    and "ailayer_leaky_relu_backward self s
        = Some (s\<lparr>mem := (mem s)(data (deltas b) \<mapsto> map2 mul (map (dfn a) xs) gs)\<rparr>)"
proof -
  show 1: "d_leaky_relu layer (result ib) (alpha layer) (deltas b) (mem s)
        = Some ((mem s)(data (deltas b) \<mapsto> map (dfn a) xs))"
    by (simp add: k ew_alpha_def x a d)
  show 2: "lr_multiply layer (deltas b) (deltas ob) (deltas b) ((mem s)(data (deltas b) \<mapsto> map (dfn a) xs))
        = Some ((mem s)(data (deltas b) \<mapsto> map2 mul (map (dfn a) xs) gs))"
    using apart by (simp add: k ew_binary_def g)
  show "ailayer_leaky_relu_backward self s
        = Some (s\<lparr>mem := (mem s)(data (deltas b) \<mapsto> map2 mul (map (dfn a) xs) gs)\<rparr>)"
    by (simp add: leaky_relu_backward_unfold[OF self cfg nb] 1 2)
qed

text \<open>
  Claim C3. One backward call of a Leaky ReLU node with elementwise kernels first writes
  the derivative of the predecessor's result (with the slope read through \<open>alpha\<close>) into
  the node's own deltas, then multiplies the deltas elementwise by the successor's deltas,
  in place. With the derivative and product of the spec, predecessor result \<open>[-2, 0, 3]\<close>,
  successor gradient \<open>[1, 1, 1]\<close> and slope \<open>0.1\<close>, the deltas end as \<open>[0.1, 1, 1]\<close>.
\<close>

theorem leaky_relu_backward_steps:
  fixes s :: "real state"
  assumes self: "layers s self = Some b" and cfg: "leaky_relu_config s self = Some layer"
    and nb: "predecessor s self = Some ib" "successor s self = Some ob"
    and k: "d_leaky_relu layer = ew_alpha dfn" "lr_multiply layer = ew_binary mul"
    and a: "read_scalar (mem s) (alpha layer) = Some a"
    and x: "mem s (data (result ib)) = Some xs" and g: "mem s (data (deltas ob)) = Some gs"
    and d: "mem s (data (deltas b)) = Some ds"
    and apart: "data (deltas b) \<noteq> data (deltas ob)"
  shows "\<exists>m1 m2.
      d_leaky_relu layer (result ib) (alpha layer) (deltas b) (mem s) = Some m1
    \<and> m1 (data (deltas b)) = Some (map (dfn a) xs)
    \<and> lr_multiply layer (deltas b) (deltas ob) (deltas b) m1 = Some m2
    \<and> m2 (data (deltas b)) = Some (map2 mul (map (dfn a) xs) gs)
    \<and> ailayer_leaky_relu_backward self s = Some (s\<lparr>mem := m2\<rparr>)
    \<and> (dfn = d_leaky_relu_fn \<and> mul = multiply_fn \<and> a = 1 / 10 \<and> xs = [- 2, 0, 3] \<and> gs = [1, 1, 1]
         \<longrightarrow> m2 (data (deltas b)) = Some [1 / 10, 1, 1])"
proof -
  define m1 where "m1 = (mem s)(data (deltas b) \<mapsto> map (dfn a) xs)"
  define m2 where "m2 = (mem s)(data (deltas b) \<mapsto> map2 mul (map (dfn a) xs) gs)"
  note sm = leaky_relu_backward_summary[OF self cfg nb k a x g d apart, folded m1_def m2_def]
  have c1: "m1 (data (deltas b)) = Some (map (dfn a) xs)"
    and c2: "m2 (data (deltas b)) = Some (map2 mul (map (dfn a) xs) gs)"
    by (simp_all add: m1_def m2_def)
  have c3: "dfn = d_leaky_relu_fn \<and> mul = multiply_fn \<and> a = 1 / 10 \<and> xs = [- 2, 0, 3] \<and> gs = [1, 1, 1]
         \<longrightarrow> m2 (data (deltas b)) = Some [1 / 10, 1, 1]"
    using c2 by (auto simp: multiply_fn_def d_leaky_relu_fn_def)
  from sm c1 c2 c3 show ?thesis by blast
qed

theorem leaky_relu_backward_steps_witness:
  "layers (scenario_A [5, 5, 5] [1, 1, 1]) 1 = Some leaky_relu_node
   \<and> leaky_relu_config (scenario_A [5, 5, 5] [1, 1, 1]) 1 = Some demo_leaky_relu
   \<and> predecessor (scenario_A [5, 5, 5] [1, 1, 1]) 1 = Some input_node
   \<and> successor (scenario_A [5, 5, 5] [1, 1, 1]) 1 = Some sigmoid_node
   \<and> d_leaky_relu demo_leaky_relu = ew_alpha d_leaky_relu_fn
   \<and> lr_multiply demo_leaky_relu = ew_binary multiply_fn
   \<and> read_scalar (mem (scenario_A [5, 5, 5] [1, 1, 1])) (alpha demo_leaky_relu) = Some (1 / 10)
   \<and> mem (scenario_A [5, 5, 5] [1, 1, 1]) (data (result input_node)) = Some [- 2, 0, 3]
   \<and> mem (scenario_A [5, 5, 5] [1, 1, 1]) (data (deltas sigmoid_node)) = Some [1, 1, 1]
   \<and> mem (scenario_A [5, 5, 5] [1, 1, 1]) (data (deltas leaky_relu_node)) = Some [5, 5, 5]
   \<and> data (deltas leaky_relu_node) \<noteq> data (deltas sigmoid_node)
   \<and> (\<exists>m2. ailayer_leaky_relu_backward 1 (scenario_A [5, 5, 5] [1, 1, 1])
              = Some ((scenario_A [5, 5, 5] [1, 1, 1])\<lparr>mem := m2\<rparr>)
          \<and> m2 (data (deltas leaky_relu_node)) = Some [1 / 10, 1, 1])"
proof -
  let ?s = "scenario_A [5, 5, 5] [1, 1, 1]"
  have h1: "layers ?s 1 = Some leaky_relu_node"
    and h2: "leaky_relu_config ?s 1 = Some demo_leaky_relu"
    and h3: "predecessor ?s 1 = Some input_node"
    and h4: "successor ?s 1 = Some sigmoid_node"
    and h5: "d_leaky_relu demo_leaky_relu = ew_alpha d_leaky_relu_fn"
    and h6: "lr_multiply demo_leaky_relu = ew_binary multiply_fn"
    and h7: "read_scalar (mem ?s) (alpha demo_leaky_relu) = Some (1 / 10)"
    and h8: "mem ?s (data (result input_node)) = Some [- 2, 0, 3]"
    and h9: "mem ?s (data (deltas sigmoid_node)) = Some [1, 1, 1]"
    and h10: "mem ?s (data (deltas leaky_relu_node)) = Some [5, 5, 5]"
    and h11: "data (deltas leaky_relu_node) \<noteq> data (deltas sigmoid_node)"
    by (simp_all add: demo_defs read_scalar_def)
  from leaky_relu_backward_steps[OF h1 h2 h3 h4 h5 h6 h7 h8 h9 h10 h11]
  have "\<exists>m2. ailayer_leaky_relu_backward 1 ?s = Some (?s\<lparr>mem := m2\<rparr>)
          \<and> m2 (data (deltas leaky_relu_node)) = Some [1 / 10, 1, 1]"
    by auto
  with h1 h2 h3 h4 h5 h6 h7 h8 h9 h10 h11 show ?thesis by blast
qed

section \<open>Which gradient the backward pass reads\<close>

lemma sigmoid_backward_summary:
  assumes self: "layers s self = Some b" and cfg: "sigmoid_config s self = Some layer"
    and nb: "predecessor s self = Some ib" "successor s self = Some ob"
    and k: "sigmoid layer = ew_unary act" "d_sigmoid layer = ew_unary der" "sg_multiply layer = ew_binary mul"
    and x: "contents s (result ib) = Some xs" and g: "contents s (deltas ob) = Some gs"
    and d: "contents s (deltas b) = Some ds"
  shows "\<exists>s'. ailayer_sigmoid_backward szp szd self s = Some s'
    \<and> layers s' = layers s \<and> sigmoid_layers s' = sigmoid_layers s
    \<and> leaky_relu_layers s' = leaky_relu_layers s \<and> sp s' = sp s
    \<and> mem s' (data (deltas b)) = Some (map2 mul (map der (map act xs)) gs)
    \<and> (\<forall>a. live s a \<and> a \<noteq> data (deltas b) \<longrightarrow> mem s' a = mem s a)"
proof -
  obtain i out where l: "input_layer b = Some i" "layers s i = Some ib" "output_layer b = Some out" "layers s out = Some ob"
    using neighbourhood_unfold[OF self nb] by blast
  obtain c where c: "layer_configuration b = Some c" "sigmoid_layers s c = Some layer"
    using sigmoid_config_unfold[OF self cfg] by blast
  note X = contents_SomeD[OF x] and G = contents_SomeD[OF g] and D = contents_SomeD[OF d]
  note nx = live_not_scratch[OF X[THEN conjunct1]] and ng = live_not_scratch[OF G[THEN conjunct1]]
    and nd = live_not_scratch[OF D[THEN conjunct1]]
  show ?thesis
    using self l c k X G D nx ng nd
    by (auto simp: ailayer_sigmoid_backward_def alloca_def ew_unary_def ew_binary_def Let_def live_Stack
        split: option.splits)
qed

lemma live_same_sp: "sp s' = sp s \<Longrightarrow> live s a \<Longrightarrow> live s' a"
  by (cases a) (simp_all add: live_def)

lemma sigmoid_backward_slot:
  assumes self: "layers s self = Some b" and cfg: "sigmoid_config s self = Some layer"
    and nb: "predecessor s self = Some ib" "successor s self = Some ob"
    and k: "sigmoid layer = ew_unary act" "d_sigmoid layer = ew_unary der" "sg_multiply layer = ew_binary mul"
    and x: "contents s (result ib) = Some xs" and g: "contents s (deltas ob) = Some gs"
    and d: "contents s (deltas b) = Some ds"
  shows "contents_after (ailayer_sigmoid_backward szp szd self s) (deltas b)
         = Some (map2 mul (map der (map act xs)) gs)"
proof -
  from sigmoid_backward_summary[OF assms, of szp szd]
  obtain s' where s': "ailayer_sigmoid_backward szp szd self s = Some s'" "sp s' = sp s"
    "mem s' (data (deltas b)) = Some (map2 mul (map der (map act xs)) gs)"
    by (elim exE conjE)
  have "live s (data (deltas b))" using contents_SomeD[OF d] by simp
  then have "live s' (data (deltas b))" by (rule live_same_sp[OF s'(2)])
  then show ?thesis by (simp add: contents_after_def contents_def s')
qed

lemma leaky_relu_backward_slot:
  assumes self: "layers s self = Some b" and cfg: "leaky_relu_config s self = Some layer"
    and nb: "predecessor s self = Some ib" "successor s self = Some ob"
    and k: "d_leaky_relu layer = ew_alpha dfn" "lr_multiply layer = ew_binary mul"
    and a: "read_scalar (mem s) (alpha layer) = Some a"
    and x: "contents s (result ib) = Some xs" and g: "contents s (deltas ob) = Some gs"
    and d: "contents s (deltas b) = Some ds"
    and apart: "data (deltas b) \<noteq> data (deltas ob)"
  shows "contents_after (ailayer_leaky_relu_backward self s) (deltas b)
         = Some (map2 mul (map (dfn a) xs) gs)"
proof -
  have X: "mem s (data (result ib)) = Some xs" and G: "mem s (data (deltas ob)) = Some gs"
    and D: "mem s (data (deltas b)) = Some ds" and L: "live s (data (deltas b))"
    using contents_SomeD[OF x] contents_SomeD[OF g] contents_SomeD[OF d] by simp_all
  let ?s' = "s\<lparr>mem := (mem s)(data (deltas b) \<mapsto> map2 mul (map (dfn a) xs) gs)\<rparr>"
  have run: "ailayer_leaky_relu_backward self s = Some ?s'"
    by (rule leaky_relu_backward_summary(3)[OF self cfg nb k a X G D apart])
  have "sp ?s' = sp s" by simp
  then have "live ?s' (data (deltas b))" using L by (rule live_same_sp)
  then show ?thesis by (simp add: run contents_after_def contents_def)
qed

text \<open>
  Claim C5 as stated fails: two runs of the Leaky ReLU backward pass that start with the
  same contents in the node's own gradient slot and the same predecessor result, and
  differ only in the successor's gradient tensor, end with different contents in the
  node's slot. So the gradient that is read is not the node's own slot.
\<close>

theorem backward_own_slot_counterexample:
  "contents (scenario_A [5, 5, 5] [1, 1, 1]) (deltas leaky_relu_node)
     = contents (scenario_A [5, 5, 5] [2, 2, 2]) (deltas leaky_relu_node)
   \<and> contents (scenario_A [5, 5, 5] [1, 1, 1]) (result input_node)
     = contents (scenario_A [5, 5, 5] [2, 2, 2]) (result input_node)
   \<and> contents_after (ailayer_leaky_relu_backward 1 (scenario_A [5, 5, 5] [1, 1, 1])) (deltas leaky_relu_node)
     = Some [1 / 10, 1, 1]
   \<and> contents_after (ailayer_leaky_relu_backward 1 (scenario_A [5, 5, 5] [2, 2, 2])) (deltas leaky_relu_node)
     = Some [1 / 5, 2, 2]
   \<and> contents_after (ailayer_leaky_relu_backward 1 (scenario_A [5, 5, 5] [1, 1, 1])) (deltas leaky_relu_node)
     \<noteq> contents_after (ailayer_leaky_relu_backward 1 (scenario_A [5, 5, 5] [2, 2, 2])) (deltas leaky_relu_node)"
  by (simp add: contents_after_def ailayer_leaky_relu_backward_def demo_defs Let_def
      ew_alpha_def ew_binary_def read_scalar_def multiply_fn_def d_leaky_relu_fn_def)

text \<open>
  Claim C5, amended. For both layers, with elementwise kernels, the backward operation
  reads the predecessor's result and the successor's gradient tensor (the \<open>deltas\<close> of the
  node's \<open>output_layer\<close>) and writes the chain-rule product into the node's own gradient
  slot. What the slot held before the call (\<open>ds\<close>) has no influence on the outcome.
\<close>

theorem backward_reads_successor_deltas:
  "(layers s self = Some b \<and> sigmoid_config s self = Some layer
      \<and> predecessor s self = Some ib \<and> successor s self = Some ob
      \<and> sigmoid layer = ew_unary act \<and> d_sigmoid layer = ew_unary der \<and> sg_multiply layer = ew_binary mul
      \<and> contents s (result ib) = Some xs \<and> contents s (deltas ob) = Some gs
      \<and> contents s (deltas b) = Some ds
    \<longrightarrow> contents_after (ailayer_sigmoid_backward szp szd self s) (deltas b)
          = Some (map2 mul (map der (map act xs)) gs))
   \<and> (layers t self' = Some b' \<and> leaky_relu_config t self' = Some layer'
      \<and> predecessor t self' = Some ib' \<and> successor t self' = Some ob'
      \<and> d_leaky_relu layer' = ew_alpha dfn \<and> lr_multiply layer' = ew_binary mul'
      \<and> read_scalar (mem t) (alpha layer') = Some a
      \<and> contents t (result ib') = Some xs' \<and> contents t (deltas ob') = Some gs'
      \<and> contents t (deltas b') = Some ds' \<and> data (deltas b') \<noteq> data (deltas ob')
    \<longrightarrow> contents_after (ailayer_leaky_relu_backward self' t) (deltas b')
          = Some (map2 mul' (map (dfn a) xs') gs'))"
proof (intro conjI impI; elim conjE)
  assume "layers s self = Some b" "sigmoid_config s self = Some layer"
    "predecessor s self = Some ib" "successor s self = Some ob"
    "sigmoid layer = ew_unary act" "d_sigmoid layer = ew_unary der" "sg_multiply layer = ew_binary mul"
    "contents s (result ib) = Some xs" "contents s (deltas ob) = Some gs"
    "contents s (deltas b) = Some ds"
  then show "contents_after (ailayer_sigmoid_backward szp szd self s) (deltas b)
          = Some (map2 mul (map der (map act xs)) gs)"
    by (rule sigmoid_backward_slot)
next
  assume "layers t self' = Some b'" "leaky_relu_config t self' = Some layer'"
    "predecessor t self' = Some ib'" "successor t self' = Some ob'"
    "d_leaky_relu layer' = ew_alpha dfn" "lr_multiply layer' = ew_binary mul'"
    "read_scalar (mem t) (alpha layer') = Some a"
    "contents t (result ib') = Some xs'" "contents t (deltas ob') = Some gs'"
    "contents t (deltas b') = Some ds'" "data (deltas b') \<noteq> data (deltas ob')"
  then show "contents_after (ailayer_leaky_relu_backward self' t) (deltas b')
          = Some (map2 mul' (map (dfn a) xs') gs')"
    by (rule leaky_relu_backward_slot)
qed

theorem backward_reads_successor_deltas_witness:
  "(layers (scenario_B [9] [42]) 2 = Some sigmoid_node
      \<and> sigmoid_config (scenario_B [9] [42]) 2 = Some demo_sigmoid
      \<and> predecessor (scenario_B [9] [42]) 2 = Some leaky_relu_node
      \<and> successor (scenario_B [9] [42]) 2 = Some closing_node
      \<and> sigmoid demo_sigmoid = ew_unary sigmoid_fn \<and> d_sigmoid demo_sigmoid = ew_unary d_sigmoid_fn
      \<and> sg_multiply demo_sigmoid = ew_binary multiply_fn
      \<and> contents (scenario_B [9] [42]) (result leaky_relu_node) = Some [0]
      \<and> contents (scenario_B [9] [42]) (deltas closing_node) = Some [1]
      \<and> contents (scenario_B [9] [42]) (deltas sigmoid_node) = Some [9])
   \<and> contents_after (ailayer_sigmoid_backward no_params four_bytes 2 (scenario_B [9] [42])) (deltas sigmoid_node)
       = Some [1 / 4]
   \<and> (layers (scenario_A [5, 5, 5] [2, 2, 2]) 1 = Some leaky_relu_node
      \<and> leaky_relu_config (scenario_A [5, 5, 5] [2, 2, 2]) 1 = Some demo_leaky_relu
      \<and> predecessor (scenario_A [5, 5, 5] [2, 2, 2]) 1 = Some input_node
      \<and> successor (scenario_A [5, 5, 5] [2, 2, 2]) 1 = Some sigmoid_node
      \<and> d_leaky_relu demo_leaky_relu = ew_alpha d_leaky_relu_fn
      \<and> lr_multiply demo_leaky_relu = ew_binary multiply_fn
      \<and> read_scalar (mem (scenario_A [5, 5, 5] [2, 2, 2])) (alpha demo_leaky_relu) = Some (1 / 10)
      \<and> contents (scenario_A [5, 5, 5] [2, 2, 2]) (result input_node) = Some [- 2, 0, 3]
      \<and> contents (scenario_A [5, 5, 5] [2, 2, 2]) (deltas sigmoid_node) = Some [2, 2, 2]
      \<and> contents (scenario_A [5, 5, 5] [2, 2, 2]) (deltas leaky_relu_node) = Some [5, 5, 5]
      \<and> data (deltas leaky_relu_node) \<noteq> data (deltas sigmoid_node))
   \<and> contents_after (ailayer_leaky_relu_backward 1 (scenario_A [5, 5, 5] [2, 2, 2])) (deltas leaky_relu_node)
       = Some [1 / 5, 2, 2]"
proof -
  let ?B = "scenario_B [9] [42]" and ?A = "scenario_A [5, 5, 5] [2, 2, 2]"
  have hB: "layers ?B 2 = Some sigmoid_node
      \<and> sigmoid_config ?B 2 = Some demo_sigmoid
      \<and> predecessor ?B 2 = Some leaky_relu_node
      \<and> successor ?B 2 = Some closing_node
      \<and> sigmoid demo_sigmoid = ew_unary sigmoid_fn \<and> d_sigmoid demo_sigmoid = ew_unary d_sigmoid_fn
      \<and> sg_multiply demo_sigmoid = ew_binary multiply_fn
      \<and> contents ?B (result leaky_relu_node) = Some [0]
      \<and> contents ?B (deltas closing_node) = Some [1]
      \<and> contents ?B (deltas sigmoid_node) = Some [9]"
    by (simp add: demo_defs)
  have hA: "layers ?A 1 = Some leaky_relu_node
      \<and> leaky_relu_config ?A 1 = Some demo_leaky_relu
      \<and> predecessor ?A 1 = Some input_node
      \<and> successor ?A 1 = Some sigmoid_node
      \<and> d_leaky_relu demo_leaky_relu = ew_alpha d_leaky_relu_fn
      \<and> lr_multiply demo_leaky_relu = ew_binary multiply_fn
      \<and> read_scalar (mem ?A) (alpha demo_leaky_relu) = Some (1 / 10)
      \<and> contents ?A (result input_node) = Some [- 2, 0, 3]
      \<and> contents ?A (deltas sigmoid_node) = Some [2, 2, 2]
      \<and> contents ?A (deltas leaky_relu_node) = Some [5, 5, 5]
      \<and> data (deltas leaky_relu_node) \<noteq> data (deltas sigmoid_node)"
    by (simp add: demo_defs read_scalar_def)
  note T = backward_reads_successor_deltas[of ?B 2 sigmoid_node demo_sigmoid leaky_relu_node closing_node
      sigmoid_fn d_sigmoid_fn multiply_fn "[0]" "[1]" "[9]" no_params four_bytes
      ?A 1 leaky_relu_node demo_leaky_relu input_node sigmoid_node d_leaky_relu_fn multiply_fn "1 / 10"
      "[- 2, 0, 3]" "[2, 2, 2]" "[5, 5, 5]"]
  have vB: "map2 multiply_fn (map d_sigmoid_fn (map sigmoid_fn [0])) [1] = [1 / 4]"
    by (simp add: multiply_fn_def d_sigmoid_fn_def sigmoid_fn_def)
  have vA: "map2 multiply_fn (map (d_leaky_relu_fn (1 / 10)) [- 2, 0, 3]) [2, 2, 2] = [1 / 5, 2, 2]"
    by (simp add: multiply_fn_def d_leaky_relu_fn_def)
  from T[THEN conjunct1, rule_format, OF hB] T[THEN conjunct2, rule_format, OF hA] hA hB
  show ?thesis unfolding vA vB by blast
qed

section \<open>Repeated backward calls\<close>

lemma sigmoid_config_same:
  "layers s' = layers s \<Longrightarrow> sigmoid_layers s' = sigmoid_layers s
   \<Longrightarrow> sigmoid_config s' self = sigmoid_config s self"
  by (simp add: sigmoid_config_def)

lemma neighbours_same:
  "layers s' = layers s \<Longrightarrow> predecessor s' self = predecessor s self"
  "layers s' = layers s \<Longrightarrow> successor s' self = successor s self"
  by (simp_all add: predecessor_def successor_def)

lemma contents_same:
  assumes "sp s' = sp s" "mem s' (data t) = mem s (data t)"
  shows "contents s' t = contents s t"
  using assms by (cases "data t") (simp_all add: contents_def live_def)

lemma contents_written:
  assumes "sp s' = sp s" "live s (data t)" "mem s' (data t) = Some ys"
  shows "contents s' t = Some ys"
  using assms by (cases "data t") (simp_all add: contents_def live_def)

lemma sigmoid_backward_repeat:
  assumes self: "layers s self = Some b" and cfg: "sigmoid_config s self = Some layer"
    and nb: "predecessor s self = Some ib" "successor s self = Some ob"
    and k: "sigmoid layer = ew_unary act" "d_sigmoid layer = ew_unary der" "sg_multiply layer = ew_binary mul"
    and x: "contents s (result ib) = Some xs" and g: "contents s (deltas ob) = Some gs"
    and d: "contents s (deltas b) = Some ds"
    and apart: "data (deltas b) \<noteq> data (result ib)" "data (deltas b) \<noteq> data (deltas ob)"
  shows "contents_after (repeat (Suc n) (ailayer_sigmoid_backward szp szd self) s) (deltas b)
         = Some (map2 mul (map der (map act xs)) gs)"
  using self cfg nb x g d
proof (induction n arbitrary: s ds)
  case 0
  from sigmoid_backward_summary[OF "0.prems"(1,2,3,4) k "0.prems"(5,6,7), of szp szd]
  obtain s' where s': "ailayer_sigmoid_backward szp szd self s = Some s'" "sp s' = sp s"
    "mem s' (data (deltas b)) = Some (map2 mul (map der (map act xs)) gs)"
    by (elim exE conjE)
  have "live s (data (deltas b))" using contents_SomeD[OF "0.prems"(7)] by simp
  then have "contents s' (deltas b) = Some (map2 mul (map der (map act xs)) gs)"
    by (rule contents_written[OF s'(2) _ s'(3)])
  then show ?case by (simp add: s'(1) contents_after_def)
next
  case (Suc n)
  from sigmoid_backward_summary[OF Suc.prems(1,2,3,4) k Suc.prems(5,6,7), of szp szd]
  obtain s' where run: "ailayer_sigmoid_backward szp szd self s = Some s'"
    and same: "layers s' = layers s" "sigmoid_layers s' = sigmoid_layers s" "sp s' = sp s"
    and slot: "mem s' (data (deltas b)) = Some (map2 mul (map der (map act xs)) gs)"
    and frame: "\<forall>a. live s a \<and> a \<noteq> data (deltas b) \<longrightarrow> mem s' a = mem s a"
    by (elim exE conjE)
  note X = contents_SomeD[OF Suc.prems(5)] and G = contents_SomeD[OF Suc.prems(6)]
    and D = contents_SomeD[OF Suc.prems(7)]
  have mx: "mem s' (data (result ib)) = mem s (data (result ib))"
    using frame X apart(1) by metis
  have mg: "mem s' (data (deltas ob)) = mem s (data (deltas ob))"
    using frame G apart(2) by metis
  have p1: "layers s' self = Some b" using Suc.prems(1) same by simp
  have p2: "sigmoid_config s' self = Some layer"
    using Suc.prems(2) sigmoid_config_same[OF same(1,2)] by simp
  have p3: "predecessor s' self = Some ib" and p4: "successor s' self = Some ob"
    using Suc.prems(3,4) neighbours_same[OF same(1)] by simp_all
  have p5: "contents s' (result ib) = Some xs"
    using contents_same[OF same(3) mx] Suc.prems(5) by simp
  have p6: "contents s' (deltas ob) = Some gs"
    using contents_same[OF same(3) mg] Suc.prems(6) by simp
  have p7: "contents s' (deltas b) = Some (map2 mul (map der (map act xs)) gs)"
    by (rule contents_written[OF same(3) D[THEN conjunct1] slot])
  have "repeat (Suc (Suc n)) (ailayer_sigmoid_backward szp szd self) s
        = repeat (Suc n) (ailayer_sigmoid_backward szp szd self) s'"
    by (simp add: run)
  then show ?case using Suc.IH[OF p1 p2 p3 p4 p5 p6 p7] by simp
qed

text \<open>
  Claim C8. For a Sigmoid node with elementwise kernels whose gradient slot is stored
  apart from the predecessor's result and the successor's gradient, any number of
  backward calls in a row leaves the same contents in the node's gradient slot: the
  contents are a function of the predecessor's result and the successor's gradient only,
  whatever the stack blocks held from earlier calls and however many calls came before.
\<close>

theorem sigmoid_backward_repeatable:
  assumes self: "layers s self = Some b" and cfg: "sigmoid_config s self = Some layer"
    and nb: "predecessor s self = Some ib" "successor s self = Some ob"
    and k: "sigmoid layer = ew_unary act" "d_sigmoid layer = ew_unary der" "sg_multiply layer = ew_binary mul"
    and x: "contents s (result ib) = Some xs" and g: "contents s (deltas ob) = Some gs"
    and d: "contents s (deltas b) = Some ds"
    and apart: "data (deltas b) \<noteq> data (result ib)" "data (deltas b) \<noteq> data (deltas ob)"
  shows "contents_after (repeat (Suc n) (ailayer_sigmoid_backward szp szd self) s) (deltas b)
           = Some (map2 mul (map der (map act xs)) gs)
         \<and> contents_after (repeat (Suc n) (ailayer_sigmoid_backward szp szd self) s) (deltas b)
           = contents_after (repeat (Suc m) (ailayer_sigmoid_backward szp szd self) s) (deltas b)"
  using sigmoid_backward_repeat[OF assms, of n szp szd] sigmoid_backward_repeat[OF assms, of m szp szd]
  by simp

theorem sigmoid_backward_repeatable_witness:
  "layers (scenario_B [9] [42]) 2 = Some sigmoid_node
   \<and> sigmoid_config (scenario_B [9] [42]) 2 = Some demo_sigmoid
   \<and> predecessor (scenario_B [9] [42]) 2 = Some leaky_relu_node
   \<and> successor (scenario_B [9] [42]) 2 = Some closing_node
   \<and> sigmoid demo_sigmoid = ew_unary sigmoid_fn
   \<and> d_sigmoid demo_sigmoid = ew_unary d_sigmoid_fn
   \<and> sg_multiply demo_sigmoid = ew_binary multiply_fn
   \<and> contents (scenario_B [9] [42]) (result leaky_relu_node) = Some [0]
   \<and> contents (scenario_B [9] [42]) (deltas closing_node) = Some [1]
   \<and> contents (scenario_B [9] [42]) (deltas sigmoid_node) = Some [9]
   \<and> data (deltas sigmoid_node) \<noteq> data (result leaky_relu_node)
   \<and> data (deltas sigmoid_node) \<noteq> data (deltas closing_node)
   \<and> contents_after (repeat (Suc 2) (ailayer_sigmoid_backward no_params four_bytes 2) (scenario_B [9] [42]))
        (deltas sigmoid_node) = Some [1 / 4]
   \<and> contents_after (repeat (Suc 2) (ailayer_sigmoid_backward no_params four_bytes 2) (scenario_B [9] [42]))
        (deltas sigmoid_node)
     = contents_after (repeat (Suc 0) (ailayer_sigmoid_backward no_params four_bytes 2) (scenario_B [9] [42]))
        (deltas sigmoid_node)"
proof -
  let ?s = "scenario_B [9] [42]"
  have h1: "layers ?s 2 = Some sigmoid_node"
    and h2: "sigmoid_config ?s 2 = Some demo_sigmoid"
    and h3: "predecessor ?s 2 = Some leaky_relu_node"
    and h4: "successor ?s 2 = Some closing_node"
    and h5: "sigmoid demo_sigmoid = ew_unary sigmoid_fn"
    and h6: "d_sigmoid demo_sigmoid = ew_unary d_sigmoid_fn"
    and h7: "sg_multiply demo_sigmoid = ew_binary multiply_fn"
    and h8: "contents ?s (result leaky_relu_node) = Some [0]"
    and h9: "contents ?s (deltas closing_node) = Some [1]"
    and h10: "contents ?s (deltas sigmoid_node) = Some [9]"
    and h11: "data (deltas sigmoid_node) \<noteq> data (result leaky_relu_node)"
    and h12: "data (deltas sigmoid_node) \<noteq> data (deltas closing_node)"
    by (simp_all add: demo_defs)
  have v: "map2 multiply_fn (map d_sigmoid_fn (map sigmoid_fn [0])) [1] = [1 / 4]"
    by (simp add: multiply_fn_def d_sigmoid_fn_def sigmoid_fn_def)
  from sigmoid_backward_repeatable[OF h1 h2 h3 h4 h5 h6 h7 h8 h9 h10 h11 h12, of 2 no_params four_bytes 0]
    h1 h2 h3 h4 h5 h6 h7 h8 h9 h10 h11 h12
  show ?thesis unfolding v by blast
qed

section \<open>Forward pass and the sigmoid function\<close>

lemma predecessor_unfold:
  assumes "layers s self = Some b" "predecessor s self = Some ib"
  shows "\<exists>i. input_layer b = Some i \<and> layers s i = Some ib"
  using assms by (auto simp: predecessor_def split: Option.bind_splits)

lemma sigmoid_forward_unfold:
  assumes self: "layers s self = Some b" and cfg: "sigmoid_config s self = Some layer"
    and nb: "predecessor s self = Some ib"
  shows "ailayer_sigmoid_forward self s =
    (case sigmoid layer (result ib) (result b) (mem s) of
       None \<Rightarrow> None
     | Some m \<Rightarrow> Some (s\<lparr>mem := m\<rparr>))"
proof -
  obtain i where l: "input_layer b = Some i" "layers s i = Some ib"
    using predecessor_unfold[OF self nb] by blast
  obtain c where c: "layer_configuration b = Some c" "sigmoid_layers s c = Some layer"
    using sigmoid_config_unfold[OF self cfg] by blast
  show ?thesis
    using self l c
    by (simp add: ailayer_sigmoid_forward_def Let_def split: option.splits)
qed

lemma leaky_relu_forward_unfold:
  assumes self: "layers s self = Some b" and cfg: "leaky_relu_config s self = Some layer"
    and nb: "predecessor s self = Some ib"
  shows "ailayer_leaky_relu_forward self s =
    (case leaky_relu layer (result ib) (alpha layer) (result b) (mem s) of
       None \<Rightarrow> None
     | Some m \<Rightarrow> Some (s\<lparr>mem := m\<rparr>))"
proof -
  obtain i where l: "input_layer b = Some i" "layers s i = Some ib"
    using predecessor_unfold[OF self nb] by blast
  obtain c where c: "layer_configuration b = Some c" "leaky_relu_layers s c = Some layer"
    using leaky_relu_config_unfold[OF self cfg] by blast
  show ?thesis
    using self l c
    by (simp add: ailayer_leaky_relu_forward_def Let_def split: option.splits)
qed

lemma sigmoid_forward_result:
  assumes self: "layers s self = Some b" and cfg: "sigmoid_config s self = Some layer"
    and nb: "predecessor s self = Some ib"
    and k: "sigmoid layer = ew_unary act"
    and x: "contents s (result ib) = Some xs" and r: "contents s (result b) = Some rs"
  shows "contents_after (ailayer_sigmoid_forward self s) (result b) = Some (map act xs)"
proof -
  have X: "mem s (data (result ib)) = Some xs" and R: "mem s (data (result b)) = Some rs"
    and L: "live s (data (result b))"
    using contents_SomeD[OF x] contents_SomeD[OF r] by simp_all
  let ?s' = "s\<lparr>mem := (mem s)(data (result b) \<mapsto> map act xs)\<rparr>"
  have run: "ailayer_sigmoid_forward self s = Some ?s'"
    by (simp add: sigmoid_forward_unfold[OF self cfg nb] k ew_unary_def X R)
  have "sp ?s' = sp s" by simp
  then have "live ?s' (data (result b))" using L by (rule live_same_sp)
  then show ?thesis by (simp add: run contents_after_def contents_def)
qed

lemma sigmoid_fn_range: "0 < sigmoid_fn x \<and> sigmoid_fn x < 1"
proof -
  have "0 < exp (- x)" by simp
  then show ?thesis by (simp add: sigmoid_fn_def add_pos_pos)
qed

text \<open>
  Claim C9. The sigmoid of the spec lies strictly between 0 and 1, is \<open>1/2\<close> at 0, and the
  derivative kernel applied to a sigmoid output \<open>s\<close> gives \<open>s (1 - s)\<close>. For a Sigmoid node
  with these kernels, predecessor result \<open>[0]\<close> and successor gradient \<open>[1]\<close>, the forward
  pass leaves \<open>[0.5]\<close> in the result and the backward pass leaves \<open>[0.25]\<close> in the gradient
  slot.
\<close>

theorem sigmoid_properties:
  "(\<forall>x. 0 < sigmoid_fn x \<and> sigmoid_fn x < 1)
   \<and> sigmoid_fn 0 = 1 / 2
   \<and> (\<forall>x. d_sigmoid_fn (sigmoid_fn x) = sigmoid_fn x * (1 - sigmoid_fn x))
   \<and> (layers s self = Some b \<and> sigmoid_config s self = Some layer
       \<and> predecessor s self = Some ib \<and> successor s self = Some ob
       \<and> sigmoid layer = ew_unary sigmoid_fn \<and> d_sigmoid layer = ew_unary d_sigmoid_fn
       \<and> sg_multiply layer = ew_binary multiply_fn
       \<and> contents s (result ib) = Some [0] \<and> contents s (deltas ob) = Some [1]
       \<and> contents s (result b) = Some rs \<and> contents s (deltas b) = Some ds
      \<longrightarrow> contents_after (ailayer_sigmoid_forward self s) (result b) = Some [1 / 2]
        \<and> contents_after (ailayer_sigmoid_backward szp szd self s) (deltas b) = Some [1 / 4])"
proof (intro conjI allI impI; (elim conjE)?)
  fix x show "0 < sigmoid_fn x" "sigmoid_fn x < 1" using sigmoid_fn_range by simp_all
next
  show "sigmoid_fn 0 = 1 / 2" by (simp add: sigmoid_fn_def)
next
  fix x show "d_sigmoid_fn (sigmoid_fn x) = sigmoid_fn x * (1 - sigmoid_fn x)"
    by (simp add: d_sigmoid_fn_def)
next
  assume h: "layers s self = Some b" "sigmoid_config s self = Some layer"
    "predecessor s self = Some ib" "successor s self = Some ob"
    and k: "sigmoid layer = ew_unary sigmoid_fn" "d_sigmoid layer = ew_unary d_sigmoid_fn"
    "sg_multiply layer = ew_binary multiply_fn"
    and c: "contents s (result ib) = Some [0]" "contents s (deltas ob) = Some [1]"
    "contents s (result b) = Some rs" "contents s (deltas b) = Some ds"
  have "contents_after (ailayer_sigmoid_forward self s) (result b) = Some (map sigmoid_fn [0])"
    by (rule sigmoid_forward_result[OF h(1,2,3) k(1) c(1,3)])
  then show "contents_after (ailayer_sigmoid_forward self s) (result b) = Some [1 / 2]"
    by (simp add: sigmoid_fn_def)
  have "contents_after (ailayer_sigmoid_backward szp szd self s) (deltas b)
        = Some (map2 multiply_fn (map d_sigmoid_fn (map sigmoid_fn [0])) [1])"
    by (rule sigmoid_backward_slot[OF h k c(1,2,4)])
  then show "contents_after (ailayer_sigmoid_backward szp szd self s) (deltas b) = Some [1 / 4]"
    by (simp add: multiply_fn_def d_sigmoid_fn_def sigmoid_fn_def)
qed

theorem sigmoid_properties_witness:
  "(layers (scenario_B [9] [42]) 2 = Some sigmoid_node
      \<and> sigmoid_config (scenario_B [9] [42]) 2 = Some demo_sigmoid
      \<and> predecessor (scenario_B [9] [42]) 2 = Some leaky_relu_node
      \<and> successor (scenario_B [9] [42]) 2 = Some closing_node
      \<and> sigmoid demo_sigmoid = ew_unary sigmoid_fn \<and> d_sigmoid demo_sigmoid = ew_unary d_sigmoid_fn
      \<and> sg_multiply demo_sigmoid = ew_binary multiply_fn
      \<and> contents (scenario_B [9] [42]) (result leaky_relu_node) = Some [0]
      \<and> contents (scenario_B [9] [42]) (deltas closing_node) = Some [1]
      \<and> contents (scenario_B [9] [42]) (result sigmoid_node) = Some [7]
      \<and> contents (scenario_B [9] [42]) (deltas sigmoid_node) = Some [9])
   \<and> contents_after (ailayer_sigmoid_forward 2 (scenario_B [9] [42])) (result sigmoid_node) = Some [1 / 2]
   \<and> contents_after (ailayer_sigmoid_backward no_params four_bytes 2 (scenario_B [9] [42])) (deltas sigmoid_node)
       = Some [1 / 4]"
proof -
  let ?B = "scenario_B [9] [42]"
  have hB: "layers ?B 2 = Some sigmoid_node
      \<and> sigmoid_config ?B 2 = Some demo_sigmoid
      \<and> predecessor ?B 2 = Some leaky_relu_node
      \<and> successor ?B 2 = Some closing_node
      \<and> sigmoid demo_sigmoid = ew_unary sigmoid_fn \<and> d_sigmoid demo_sigmoid = ew_unary d_sigmoid_fn
      \<and> sg_multiply demo_sigmoid = ew_binary multiply_fn
      \<and> contents ?B (result leaky_relu_node) = Some [0]
      \<and> contents ?B (deltas closing_node) = Some [1]
      \<and> contents ?B (result sigmoid_node) = Some [7]
      \<and> contents ?B (deltas sigmoid_node) = Some [9]"
    by (simp add: demo_defs)
  note T = sigmoid_properties[of ?B 2 sigmoid_node demo_sigmoid leaky_relu_node closing_node
      "[7]" "[9]" no_params four_bytes]
  from T[THEN conjunct2, THEN conjunct2, THEN conjunct2, rule_format, OF hB] hB
  show ?thesis by blast
qed

section \<open>Leaky ReLU kernels\<close>

text \<open>
  Claim C6. On every element \<open>v\<close> of the input tensor the Leaky ReLU activate kernel gives
  \<open>a v\<close> when \<open>v < 0\<close> and \<open>v\<close> otherwise, and the derivative kernel gives \<open>a\<close> when
  \<open>v < 0\<close> and 1 otherwise, \<open>a\<close> being the slope read through \<open>alpha\<close>; both put
  \<open>v = 0\<close> on the non-negative branch.
\<close>

theorem leaky_relu_kernels:
  fixes m :: "real memory"
  assumes x: "m (data x) = Some xs" and a: "read_scalar m al = Some a" and r: "m (data r) = Some old"
  shows "(\<exists>m'. ew_alpha leaky_relu_fn x al r m = Some m'
            \<and> m' (data r) = Some (map (\<lambda>v. if v < 0 then a * v else v) xs))
    \<and> (\<exists>m'. ew_alpha d_leaky_relu_fn x al r m = Some m'
            \<and> m' (data r) = Some (map (\<lambda>v. if v < 0 then a else 1) xs))
    \<and> (\<forall>v. leaky_relu_fn a v = (if v < 0 then a * v else v))
    \<and> (\<forall>v. d_leaky_relu_fn a v = (if v < 0 then a else 1))
    \<and> leaky_relu_fn a 0 = 0 \<and> d_leaky_relu_fn a 0 = 1"
proof -
  have f: "leaky_relu_fn a = (\<lambda>v. if v < 0 then a * v else v)"
    and d: "d_leaky_relu_fn a = (\<lambda>v. if v < 0 then a else 1)"
    by (simp_all add: fun_eq_iff leaky_relu_fn_def d_leaky_relu_fn_def)
  have 1: "ew_alpha leaky_relu_fn x al r m = Some (m(data r \<mapsto> map (leaky_relu_fn a) xs))"
    and 2: "ew_alpha d_leaky_relu_fn x al r m = Some (m(data r \<mapsto> map (d_leaky_relu_fn a) xs))"
    by (simp_all add: ew_alpha_def x a r)
  show ?thesis
    unfolding 1 2 by (simp add: f d)
qed

theorem leaky_relu_kernels_witness:
  "mem (scenario_A [5, 5, 5] [1, 1, 1]) (data (result input_node)) = Some [- 2, 0, 3]
   \<and> read_scalar (mem (scenario_A [5, 5, 5] [1, 1, 1])) (Heap 20) = Some (1 / 10)
   \<and> mem (scenario_A [5, 5, 5] [1, 1, 1]) (data (result leaky_relu_node)) = Some [0, 0, 0]
   \<and> (\<exists>m'. ew_alpha leaky_relu_fn (result input_node) (Heap 20) (result leaky_relu_node)
              (mem (scenario_A [5, 5, 5] [1, 1, 1])) = Some m'
            \<and> m' (data (result leaky_relu_node)) = Some [- (1 / 5), 0, 3])
   \<and> (\<exists>m'. ew_alpha d_leaky_relu_fn (result input_node) (Heap 20) (result leaky_relu_node)
              (mem (scenario_A [5, 5, 5] [1, 1, 1])) = Some m'
            \<and> m' (data (result leaky_relu_node)) = Some [1 / 10, 1, 1])"
proof -
  let ?m = "mem (scenario_A [5, 5, 5] [1, 1, 1])"
  have h1: "?m (data (result input_node)) = Some [- 2, 0, 3]"
    and h2: "read_scalar ?m (Heap 20) = Some (1 / 10)"
    and h3: "?m (data (result leaky_relu_node)) = Some [0, 0, 0]"
    by (simp_all add: demo_defs read_scalar_def)
  from leaky_relu_kernels[OF h1 h2 h3] h1 h2 h3 show ?thesis
    by simp
qed

section \<open>What the layer operations leave unchanged\<close>

lemma ew_writes_result_only:
  "writes_result_only2 (ew_unary f)"
  "writes_result_only_alpha (ew_alpha h)"
  "writes_result_only3 (ew_binary h)"
  by (auto simp: writes_result_only2_def writes_result_only_alpha_def writes_result_only3_def
      ew_unary_def ew_alpha_def ew_binary_def split: Option.bind_splits)

lemma sigmoid_forward_graph:
  "ailayer_sigmoid_forward self s = Some s' \<Longrightarrow> same_graph s s'"
  by (auto simp: ailayer_sigmoid_forward_def same_graph_def Let_def split: Option.bind_splits)

lemma leaky_relu_forward_graph:
  "ailayer_leaky_relu_forward self s = Some s' \<Longrightarrow> same_graph s s'"
  by (auto simp: ailayer_leaky_relu_forward_def same_graph_def Let_def split: Option.bind_splits)

lemma leaky_relu_backward_graph:
  "ailayer_leaky_relu_backward self s = Some s' \<Longrightarrow> same_graph s s'"
  by (auto simp: ailayer_leaky_relu_backward_def same_graph_def Let_def split: Option.bind_splits)

lemma sigmoid_backward_graph:
  "ailayer_sigmoid_backward szp szd self s = Some s' \<Longrightarrow> same_graph s s'"
  by (auto simp: ailayer_sigmoid_backward_def same_graph_def Let_def alloca_def
      split: Option.bind_splits)


lemma sigmoid_forward_returns:
  assumes self: "layers s self = Some b" and cfg: "sigmoid_config s self = Some layer"
    and run: "ailayer_sigmoid_forward self s = Some s'"
  shows "\<exists>(ib::ailayer) m. sigmoid layer (result ib) (result b) (mem s) = Some m \<and> s' = s\<lparr>mem := m\<rparr>"
  using assms
  by (auto simp: ailayer_sigmoid_forward_def sigmoid_config_def Let_def split: Option.bind_splits)

lemma leaky_relu_forward_returns:
  assumes self: "layers s self = Some b" and cfg: "leaky_relu_config s self = Some layer"
    and run: "ailayer_leaky_relu_forward self s = Some s'"
  shows "\<exists>(ib::ailayer) m. leaky_relu layer (result ib) (alpha layer) (result b) (mem s) = Some m \<and> s' = s\<lparr>mem := m\<rparr>"
  using assms
  by (auto simp: ailayer_leaky_relu_forward_def leaky_relu_config_def Let_def split: Option.bind_splits)

lemma leaky_relu_backward_returns:
  assumes self: "layers s self = Some b" and cfg: "leaky_relu_config s self = Some layer"
    and run: "ailayer_leaky_relu_backward self s = Some s'"
  shows "\<exists>(ib::ailayer) (ob::ailayer) m1 m2. d_leaky_relu layer (result ib) (alpha layer) (deltas b) (mem s) = Some m1
      \<and> lr_multiply layer (deltas b) (deltas ob) (deltas b) m1 = Some m2 \<and> s' = s\<lparr>mem := m2\<rparr>"
  using assms
  by (auto simp: ailayer_leaky_relu_backward_def leaky_relu_config_def Let_def split: Option.bind_splits)

lemma sigmoid_backward_neighbours:
  assumes self: "layers s self = Some b"
    and run: "ailayer_sigmoid_backward szp szd self s = Some s'"
  shows "\<exists>ib ob. predecessor s self = Some ib \<and> successor s self = Some ob"
  using assms
  by (auto simp: ailayer_sigmoid_backward_def predecessor_def successor_def
      split: Option.bind_splits)

lemma sigmoid_backward_calls:
  assumes self: "layers s self = Some b" and cfg: "sigmoid_config s self = Some layer"
    and run: "ailayer_sigmoid_backward szp szd self s = Some s'"
  shows "\<exists>(ib::ailayer) (ob::ailayer) m1 m2 m3.
      sigmoid layer (result ib) (scratch_tensor s (result ib)) (mem (enter_backward szp szd (result ib) s)) = Some m1
    \<and> d_sigmoid layer (scratch_tensor s (result ib)) (scratch_tensor s (result ib)) m1 = Some m2
    \<and> sg_multiply layer (scratch_tensor s (result ib)) (deltas ob) (deltas b) m2 = Some m3
    \<and> s' = (enter_backward szp szd (result ib) s)\<lparr>mem := m3, sp := sp s\<rparr>"
proof -
  obtain ib ob where nb: "predecessor s self = Some ib" "successor s self = Some ob"
    using sigmoid_backward_neighbours[OF self run] by blast
  show ?thesis
    using run unfolding sigmoid_backward_unfold[OF self cfg nb]
    by (fastforce split: option.splits)
qed

lemma sigmoid_forward_mem:
  assumes self: "layers s self = Some b" and cfg: "sigmoid_config s self = Some layer"
    and k: "writes_result_only2 (sigmoid layer)"
    and run: "ailayer_sigmoid_forward self s = Some s'"
    and a: "a \<noteq> data (result b)" "a \<noteq> tensor_params (result b)"
  shows "mem s' a = mem s a"
proof -
  obtain ib :: ailayer and m where m: "sigmoid layer (result ib) (result b) (mem s) = Some m" "s' = s\<lparr>mem := m\<rparr>"
    using sigmoid_forward_returns[OF self cfg run] by blast
  have "m a = mem s a" using k m(1) a unfolding writes_result_only2_def by blast
  then show ?thesis by (simp add: m(2))
qed

lemma leaky_relu_forward_mem:
  assumes self: "layers s self = Some b" and cfg: "leaky_relu_config s self = Some layer"
    and k: "writes_result_only_alpha (leaky_relu layer)"
    and run: "ailayer_leaky_relu_forward self s = Some s'"
    and a: "a \<noteq> data (result b)" "a \<noteq> tensor_params (result b)"
  shows "mem s' a = mem s a"
proof -
  obtain ib :: ailayer and m where m: "leaky_relu layer (result ib) (alpha layer) (result b) (mem s) = Some m"
    "s' = s\<lparr>mem := m\<rparr>"
    using leaky_relu_forward_returns[OF self cfg run] by blast
  have "m a = mem s a" using k m(1) a unfolding writes_result_only_alpha_def by blast
  then show ?thesis by (simp add: m(2))
qed

lemma leaky_relu_backward_mem:
  assumes self: "layers s self = Some b" and cfg: "leaky_relu_config s self = Some layer"
    and k: "writes_result_only_alpha (d_leaky_relu layer)" "writes_result_only3 (lr_multiply layer)"
    and run: "ailayer_leaky_relu_backward self s = Some s'"
    and a: "a \<noteq> data (deltas b)" "a \<noteq> tensor_params (deltas b)"
  shows "mem s' a = mem s a"
proof -
  obtain ib :: ailayer and ob :: ailayer and m1 m2 where m: "d_leaky_relu layer (result ib) (alpha layer) (deltas b) (mem s) = Some m1"
    "lr_multiply layer (deltas b) (deltas ob) (deltas b) m1 = Some m2" "s' = s\<lparr>mem := m2\<rparr>"
    using leaky_relu_backward_returns[OF self cfg run] by blast
  have "m1 a = mem s a" using k(1) m(1) a unfolding writes_result_only_alpha_def by blast
  moreover have "m2 a = m1 a" using k(2) m(2) a unfolding writes_result_only3_def by blast
  ultimately show ?thesis by (simp add: m(3))
qed

lemma sigmoid_backward_mem:
  assumes self: "layers s self = Some b" and cfg: "sigmoid_config s self = Some layer"
    and k: "writes_result_only2 (sigmoid layer)" "writes_result_only2 (d_sigmoid layer)"
      "writes_result_only3 (sg_multiply layer)"
    and run: "ailayer_sigmoid_backward szp szd self s = Some s'"
    and a: "live s a" "a \<noteq> data (deltas b)" "a \<noteq> tensor_params (deltas b)"
  shows "mem s' a = mem s a"
proof -
  obtain ib :: ailayer and ob :: ailayer and m1 m2 m3 where m:
    "sigmoid layer (result ib) (scratch_tensor s (result ib)) (mem (enter_backward szp szd (result ib) s)) = Some m1"
    "d_sigmoid layer (scratch_tensor s (result ib)) (scratch_tensor s (result ib)) m1 = Some m2"
    "sg_multiply layer (scratch_tensor s (result ib)) (deltas ob) (deltas b) m2 = Some m3"
    "s' = (enter_backward szp szd (result ib) s)\<lparr>mem := m3, sp := sp s\<rparr>"
    using sigmoid_backward_calls[OF self cfg run] by blast
  have sc: "a \<noteq> data (scratch_tensor s (result ib))" "a \<noteq> tensor_params (scratch_tensor s (result ib))"
    using live_not_scratch[OF a(1)] by (simp_all add: scratch_tensor_def)
  have "m1 a = mem (enter_backward szp szd (result ib) s) a"
    using k(1) m(1) sc unfolding writes_result_only2_def by blast
  moreover have "m2 a = m1 a" using k(2) m(2) sc unfolding writes_result_only2_def by blast
  moreover have "m3 a = m2 a" using k(3) m(3) a(2,3) unfolding writes_result_only3_def by blast
  ultimately show ?thesis by (simp add: m(4) enter_backward_mem_live[OF a(1)])
qed

text \<open>
  Claim C7. For both layers, \<open>calc_result_shape\<close> returns the state as it is, and a
  forward or backward call that returns leaves every layer struct as it was: links,
  shapes, dimensionalities, data types, storage pointers and callbacks, and also the
  configured kernels and the stack pointer. When the kernels write nothing but the
  storage of their result tensor, a forward call changes no block other than the storage
  of the node's result, and a backward call changes no live block other than the storage
  of the node's deltas.
\<close>

theorem operations_frame:
  "ailayer_sigmoid_calc_result_shape self s = Some s
   \<and> ailayer_leaky_relu_calc_result_shape self s = Some s
   \<and> (\<forall>op \<in> {ailayer_sigmoid_forward, ailayer_sigmoid_backward szp szd,
               ailayer_leaky_relu_forward, ailayer_leaky_relu_backward}.
        \<forall>s'. op self s = Some s' \<longrightarrow> same_graph s s')
   \<and> (layers s self = Some b \<and> sigmoid_config s self = Some layer
       \<and> writes_result_only2 (sigmoid layer) \<and> writes_result_only2 (d_sigmoid layer)
       \<and> writes_result_only3 (sg_multiply layer)
      \<longrightarrow> (\<forall>s' a. ailayer_sigmoid_forward self s = Some s'
                 \<and> a \<noteq> data (result b) \<and> a \<noteq> tensor_params (result b)
               \<longrightarrow> mem s' a = mem s a)
        \<and> (\<forall>s' a. ailayer_sigmoid_backward szp szd self s = Some s'
                 \<and> live s a \<and> a \<noteq> data (deltas b) \<and> a \<noteq> tensor_params (deltas b)
               \<longrightarrow> mem s' a = mem s a))
   \<and> (layers t self' = Some b' \<and> leaky_relu_config t self' = Some layer'
       \<and> writes_result_only_alpha (leaky_relu layer') \<and> writes_result_only_alpha (d_leaky_relu layer')
       \<and> writes_result_only3 (lr_multiply layer')
      \<longrightarrow> (\<forall>t' a. ailayer_leaky_relu_forward self' t = Some t'
                 \<and> a \<noteq> data (result b') \<and> a \<noteq> tensor_params (result b')
               \<longrightarrow> mem t' a = mem t a)
        \<and> (\<forall>t' a. ailayer_leaky_relu_backward self' t = Some t'
                 \<and> a \<noteq> data (deltas b') \<and> a \<noteq> tensor_params (deltas b')
               \<longrightarrow> mem t' a = mem t a))"
proof (intro conjI)
  show "ailayer_sigmoid_calc_result_shape self s = Some s"
    by (simp add: ailayer_sigmoid_calc_result_shape_def)
  show "ailayer_leaky_relu_calc_result_shape self s = Some s"
    by (simp add: ailayer_leaky_relu_calc_result_shape_def)
  show "\<forall>op \<in> {ailayer_sigmoid_forward, ailayer_sigmoid_backward szp szd,
               ailayer_leaky_relu_forward, ailayer_leaky_relu_backward}.
        \<forall>s'. op self s = Some s' \<longrightarrow> same_graph s s'"
    using sigmoid_forward_graph sigmoid_backward_graph leaky_relu_forward_graph
      leaky_relu_backward_graph by blast
  show "layers s self = Some b \<and> sigmoid_config s self = Some layer
       \<and> writes_result_only2 (sigmoid layer) \<and> writes_result_only2 (d_sigmoid layer)
       \<and> writes_result_only3 (sg_multiply layer)
      \<longrightarrow> (\<forall>s' a. ailayer_sigmoid_forward self s = Some s'
                 \<and> a \<noteq> data (result b) \<and> a \<noteq> tensor_params (result b)
               \<longrightarrow> mem s' a = mem s a)
        \<and> (\<forall>s' a. ailayer_sigmoid_backward szp szd self s = Some s'
                 \<and> live s a \<and> a \<noteq> data (deltas b) \<and> a \<noteq> tensor_params (deltas b)
               \<longrightarrow> mem s' a = mem s a)"
    using sigmoid_forward_mem sigmoid_backward_mem by blast
  show "layers t self' = Some b' \<and> leaky_relu_config t self' = Some layer'
       \<and> writes_result_only_alpha (leaky_relu layer') \<and> writes_result_only_alpha (d_leaky_relu layer')
       \<and> writes_result_only3 (lr_multiply layer')
      \<longrightarrow> (\<forall>t' a. ailayer_leaky_relu_forward self' t = Some t'
                 \<and> a \<noteq> data (result b') \<and> a \<noteq> tensor_params (result b')
               \<longrightarrow> mem t' a = mem t a)
        \<and> (\<forall>t' a. ailayer_leaky_relu_backward self' t = Some t'
                 \<and> a \<noteq> data (deltas b') \<and> a \<noteq> tensor_params (deltas b')
               \<longrightarrow> mem t' a = mem t a)"
    using leaky_relu_forward_mem leaky_relu_backward_mem by blast
qed

lemma scenario_B_forward_returns:
  "ailayer_sigmoid_forward 2 (scenario_B d junk) = Some (the (ailayer_sigmoid_forward 2 (scenario_B d junk)))"
  by (simp add: ailayer_sigmoid_forward_def demo_defs Let_def ew_unary_def)

lemma scenario_A_forward_returns:
  "ailayer_leaky_relu_forward 1 (scenario_A d g) = Some (the (ailayer_leaky_relu_forward 1 (scenario_A d g)))"
  by (simp add: ailayer_leaky_relu_forward_def demo_defs Let_def ew_alpha_def read_scalar_def)

lemma scenario_A_backward_returns:
  "ailayer_leaky_relu_backward 1 (scenario_A d g) = Some (the (ailayer_leaky_relu_backward 1 (scenario_A d g)))"
  by (simp add: ailayer_leaky_relu_backward_def demo_defs Let_def ew_alpha_def ew_binary_def
      read_scalar_def)

theorem operations_frame_witness:
  "ailayer_sigmoid_backward no_params four_bytes
      \<in> {ailayer_sigmoid_forward, ailayer_sigmoid_backward no_params four_bytes,
          ailayer_leaky_relu_forward, ailayer_leaky_relu_backward}
   \<and> ailayer_sigmoid_backward no_params four_bytes 2 (scenario_B [9] [42])
       = Some (the (ailayer_sigmoid_backward no_params four_bytes 2 (scenario_B [9] [42])))
   \<and> same_graph (scenario_B [9] [42])
        (the (ailayer_sigmoid_backward no_params four_bytes 2 (scenario_B [9] [42])))
   \<and> (layers (scenario_B [9] [42]) 2 = Some sigmoid_node
       \<and> sigmoid_config (scenario_B [9] [42]) 2 = Some demo_sigmoid
       \<and> writes_result_only2 (sigmoid demo_sigmoid) \<and> writes_result_only2 (d_sigmoid demo_sigmoid)
       \<and> writes_result_only3 (sg_multiply demo_sigmoid))
   \<and> (ailayer_sigmoid_forward 2 (scenario_B [9] [42])
         = Some (the (ailayer_sigmoid_forward 2 (scenario_B [9] [42])))
       \<and> Heap 13 \<noteq> data (result sigmoid_node) \<and> Heap 13 \<noteq> tensor_params (result sigmoid_node))
   \<and> mem (the (ailayer_sigmoid_forward 2 (scenario_B [9] [42]))) (Heap 13) = Some [1]
   \<and> (live (scenario_B [9] [42]) (Heap 13)
       \<and> Heap 13 \<noteq> data (deltas sigmoid_node) \<and> Heap 13 \<noteq> tensor_params (deltas sigmoid_node))
   \<and> mem (the (ailayer_sigmoid_backward no_params four_bytes 2 (scenario_B [9] [42]))) (Heap 13) = Some [1]
   \<and> (layers (scenario_A [5, 5, 5] [1, 1, 1]) 1 = Some leaky_relu_node
       \<and> leaky_relu_config (scenario_A [5, 5, 5] [1, 1, 1]) 1 = Some demo_leaky_relu
       \<and> writes_result_only_alpha (leaky_relu demo_leaky_relu)
       \<and> writes_result_only_alpha (d_leaky_relu demo_leaky_relu)
       \<and> writes_result_only3 (lr_multiply demo_leaky_relu))
   \<and> (ailayer_leaky_relu_forward 1 (scenario_A [5, 5, 5] [1, 1, 1])
         = Some (the (ailayer_leaky_relu_forward 1 (scenario_A [5, 5, 5] [1, 1, 1])))
       \<and> Heap 12 \<noteq> data (result leaky_relu_node) \<and> Heap 12 \<noteq> tensor_params (result leaky_relu_node))
   \<and> mem (the (ailayer_leaky_relu_forward 1 (scenario_A [5, 5, 5] [1, 1, 1]))) (Heap 12) = Some [1, 1, 1]
   \<and> (ailayer_leaky_relu_backward 1 (scenario_A [5, 5, 5] [1, 1, 1])
         = Some (the (ailayer_leaky_relu_backward 1 (scenario_A [5, 5, 5] [1, 1, 1])))
       \<and> Heap 12 \<noteq> data (deltas leaky_relu_node) \<and> Heap 12 \<noteq> tensor_params (deltas leaky_relu_node))
   \<and> mem (the (ailayer_leaky_relu_backward 1 (scenario_A [5, 5, 5] [1, 1, 1]))) (Heap 12) = Some [1, 1, 1]"
proof -
  let ?B = "scenario_B [9] [42]" and ?A = "scenario_A [5, 5, 5] [1, 1, 1]"
  note T = operations_frame[of 2 ?B no_params four_bytes sigmoid_node demo_sigmoid
      ?A 1 leaky_relu_node demo_leaky_relu]
  note T3 = T[THEN conjunct2, THEN conjunct2, THEN conjunct1]
  note T4 = T[THEN conjunct2, THEN conjunct2, THEN conjunct2, THEN conjunct1]
  note T5 = T[THEN conjunct2, THEN conjunct2, THEN conjunct2, THEN conjunct2]
  have op: "ailayer_sigmoid_backward no_params four_bytes
      \<in> {ailayer_sigmoid_forward, ailayer_sigmoid_backward no_params four_bytes,
          ailayer_leaky_relu_forward, ailayer_leaky_relu_backward}"
    by simp
  have runB: "ailayer_sigmoid_backward no_params four_bytes 2 ?B
       = Some (the (ailayer_sigmoid_backward no_params four_bytes 2 ?B))"
    by (simp add: scenario_B_backward)
  have g: "same_graph ?B (the (ailayer_sigmoid_backward no_params four_bytes 2 ?B))"
    using T3[rule_format, OF op runB] .
  have hB: "layers ?B 2 = Some sigmoid_node
       \<and> sigmoid_config ?B 2 = Some demo_sigmoid
       \<and> writes_result_only2 (sigmoid demo_sigmoid) \<and> writes_result_only2 (d_sigmoid demo_sigmoid)
       \<and> writes_result_only3 (sg_multiply demo_sigmoid)"
    by (simp add: demo_defs ew_writes_result_only)
  have fB: "ailayer_sigmoid_forward 2 ?B = Some (the (ailayer_sigmoid_forward 2 ?B))
       \<and> Heap 13 \<noteq> data (result sigmoid_node) \<and> Heap 13 \<noteq> tensor_params (result sigmoid_node)"
    using scenario_B_forward_returns by (simp add: demo_defs)
  have bB: "live ?B (Heap 13)
       \<and> Heap 13 \<noteq> data (deltas sigmoid_node) \<and> Heap 13 \<noteq> tensor_params (deltas sigmoid_node)"
    by (simp add: demo_defs)
  have m13: "mem ?B (Heap 13) = Some [1]" by (simp add: demo_defs)
  have c1: "mem (the (ailayer_sigmoid_forward 2 ?B)) (Heap 13) = Some [1]"
    using T4[rule_format, OF hB, THEN conjunct1, rule_format, OF fB] m13 by simp
  have c2: "mem (the (ailayer_sigmoid_backward no_params four_bytes 2 ?B)) (Heap 13) = Some [1]"
    using T4[rule_format, OF hB, THEN conjunct2, rule_format, OF conjI[OF runB bB]] m13 by simp
  have hA: "layers ?A 1 = Some leaky_relu_node
       \<and> leaky_relu_config ?A 1 = Some demo_leaky_relu
       \<and> writes_result_only_alpha (leaky_relu demo_leaky_relu)
       \<and> writes_result_only_alpha (d_leaky_relu demo_leaky_relu)
       \<and> writes_result_only3 (lr_multiply demo_leaky_relu)"
    by (simp add: demo_defs ew_writes_result_only)
  have fA: "ailayer_leaky_relu_forward 1 ?A = Some (the (ailayer_leaky_relu_forward 1 ?A))
       \<and> Heap 12 \<noteq> data (result leaky_relu_node) \<and> Heap 12 \<noteq> tensor_params (result leaky_relu_node)"
    using scenario_A_forward_returns by (simp add: demo_defs)
  have bA: "ailayer_leaky_relu_backward 1 ?A = Some (the (ailayer_leaky_relu_backward 1 ?A))
       \<and> Heap 12 \<noteq> data (deltas leaky_relu_node) \<and> Heap 12 \<noteq> tensor_params (deltas leaky_relu_node)"
    using scenario_A_backward_returns by (simp add: demo_defs)
  have m12: "mem ?A (Heap 12) = Some [1, 1, 1]" by (simp add: demo_defs)
  have c3: "mem (the (ailayer_leaky_relu_forward 1 ?A)) (Heap 12) = Some [1, 1, 1]"
    using T5[rule_format, OF hA, THEN conjunct1, rule_format, OF fA] m12 by simp
  have c4: "mem (the (ailayer_leaky_relu_backward 1 ?A)) (Heap 12) = Some [1, 1, 1]"
    using T5[rule_format, OF hA, THEN conjunct2, rule_format, OF bA] m12 by simp
  from op runB g hB fB c1 bB c2 hA fA c3 bA c4 show ?thesis by blast
qed

section \<open>Initializers\<close>

lemma set_base_Some:
  "layers s l = Some b \<Longrightarrow> set_base l f s = Some (s\<lparr>layers := (layers s)(l \<mapsto> f b)\<rparr>)"
  by (simp add: set_base_def)

lemma sigmoid_init_distinct:
  assumes "layers s layer = Some b0" "layers s inp = Some p0" "sigmoid_layers s layer = Some cfg"
    "layer \<noteq> inp"
  shows "ailayer_sigmoid layer inp s = Some (layer, s\<lparr>layers := (layers s)
     (inp \<mapsto> p0\<lparr>output_layer := Some layer\<rparr>,
      layer \<mapsto> b0\<lparr>layer_type := Some Ailayer_sigmoid_type, input_layer := Some inp,
         layer_configuration := Some layer,
         result := (result b0)\<lparr>dtype := sg_dtype cfg, dim := dim (result p0), shape := shape (result p0)\<rparr>,
         deltas := (deltas b0)\<lparr>dtype := sg_dtype cfg, dim := 2, shape := shape (result p0)\<rparr>,
         forward := Some Fn_ailayer_sigmoid_forward, backward := Some Fn_ailayer_sigmoid_backward,
         calc_result_shape := Some Fn_ailayer_sigmoid_calc_result_shape,
         sizeof_paramem := None, set_paramem := None, sizeof_trainmem := None, set_trainmem := None,
         trainable_params_count := 0\<rparr>)\<rparr>)"
  using assms
  by (simp add: ailayer_sigmoid_def set_base_Some)

lemma sigmoid_init_same:
  assumes "layers s layer = Some b0" "sigmoid_layers s layer = Some cfg"
  shows "ailayer_sigmoid layer layer s = Some (layer, s\<lparr>layers := (layers s)
     (layer \<mapsto> b0\<lparr>layer_type := Some Ailayer_sigmoid_type,
         input_layer := Some layer, output_layer := Some layer, layer_configuration := Some layer,
         result := (result b0)\<lparr>dtype := sg_dtype cfg\<rparr>,
         deltas := (deltas b0)\<lparr>dtype := sg_dtype cfg, dim := 2, shape := shape (result b0)\<rparr>,
         forward := Some Fn_ailayer_sigmoid_forward, backward := Some Fn_ailayer_sigmoid_backward,
         calc_result_shape := Some Fn_ailayer_sigmoid_calc_result_shape,
         sizeof_paramem := None, set_paramem := None, sizeof_trainmem := None, set_trainmem := None,
         trainable_params_count := 0\<rparr>)\<rparr>)"
  using assms
  by (simp add: ailayer_sigmoid_def set_base_Some)

lemma leaky_relu_init_distinct:
  assumes "layers s layer = Some b0" "layers s inp = Some p0" "leaky_relu_layers s layer = Some cfg"
    "layer \<noteq> inp"
  shows "ailayer_leaky_relu layer inp s = Some (layer, s\<lparr>layers := (layers s)
     (inp \<mapsto> p0\<lparr>output_layer := Some layer\<rparr>,
      layer \<mapsto> b0\<lparr>layer_type := Some Ailayer_leaky_relu_type, input_layer := Some inp,
         layer_configuration := Some layer,
         result := (result b0)\<lparr>dtype := lr_dtype cfg, shape := shape (result p0), dim := dim (result p0)\<rparr>,
         deltas := (deltas b0)\<lparr>dtype := lr_dtype cfg, dim := 2, shape := shape (result p0)\<rparr>,
         forward := Some Fn_ailayer_leaky_relu_forward, backward := Some Fn_ailayer_leaky_relu_backward,
         calc_result_shape := Some Fn_ailayer_leaky_relu_calc_result_shape,
         sizeof_paramem := None, set_paramem := None, sizeof_trainmem := None, set_trainmem := None,
         trainable_params_count := 0\<rparr>)\<rparr>)"
  using assms
  by (simp add: ailayer_leaky_relu_def set_base_Some)

lemma leaky_relu_init_same:
  assumes "layers s layer = Some b0" "leaky_relu_layers s layer = Some cfg"
  shows "ailayer_leaky_relu layer layer s = Some (layer, s\<lparr>layers := (layers s)
     (layer \<mapsto> b0\<lparr>layer_type := Some Ailayer_leaky_relu_type,
         input_layer := Some layer, output_layer := Some layer, layer_configuration := Some layer,
         result := (result b0)\<lparr>dtype := lr_dtype cfg\<rparr>,
         deltas := (deltas b0)\<lparr>dtype := lr_dtype cfg, dim := 2, shape := shape (result b0)\<rparr>,
         forward := Some Fn_ailayer_leaky_relu_forward, backward := Some Fn_ailayer_leaky_relu_backward,
         calc_result_shape := Some Fn_ailayer_leaky_relu_calc_result_shape,
         sizeof_paramem := None, set_paramem := None, sizeof_trainmem := None, set_trainmem := None,
         trainable_params_count := 0\<rparr>)\<rparr>)"
  using assms
  by (simp add: ailayer_leaky_relu_def set_base_Some)

lemma sigmoid_init_facts:
  assumes b0: "layers s layer = Some b0" and p0: "layers s inp = Some p0"
    and cfg: "sigmoid_layers s layer = Some cfg"
  shows "\<exists>s' b p. ailayer_sigmoid layer inp s = Some (layer, s')
    \<and> layers s' layer = Some b \<and> layers s' inp = Some p
    \<and> links_wired layer inp b p
    \<and> dtype (result b) = sg_dtype cfg
    \<and> shape (result b) = shape (result p0) \<and> dim (result b) = dim (result p0)
    \<and> shape (result p) = shape (result p0) \<and> dim (result p) = dim (result p0)
    \<and> dtype (deltas b) = sg_dtype cfg \<and> dim (deltas b) = 2 \<and> shape (deltas b) = shape (result b)
    \<and> callbacks_installed Fn_ailayer_sigmoid_forward Fn_ailayer_sigmoid_backward
         Fn_ailayer_sigmoid_calc_result_shape b
    \<and> trainable_params_count b = 0"
proof (cases "layer = inp")
  case True
  have e: "p0 = b0" using True b0 p0 by simp
  have b0': "layers s inp = Some b0" using p0 e by simp
  have cfg': "sigmoid_layers s inp = Some cfg" using cfg True by simp
  show ?thesis
    unfolding True e
    by (simp add: sigmoid_init_same[OF b0' cfg'] links_wired_def callbacks_installed_def)
next
  case False
  then show ?thesis
    by (simp add: sigmoid_init_distinct[OF b0 p0 cfg False] links_wired_def callbacks_installed_def)
qed

lemma leaky_relu_init_facts:
  assumes b0: "layers s layer = Some b0" and p0: "layers s inp = Some p0"
    and cfg: "leaky_relu_layers s layer = Some cfg"
  shows "\<exists>s' b p. ailayer_leaky_relu layer inp s = Some (layer, s')
    \<and> layers s' layer = Some b \<and> layers s' inp = Some p
    \<and> links_wired layer inp b p
    \<and> dtype (result b) = lr_dtype cfg
    \<and> shape (result b) = shape (result p0) \<and> dim (result b) = dim (result p0)
    \<and> shape (result p) = shape (result p0) \<and> dim (result p) = dim (result p0)
    \<and> dtype (deltas b) = lr_dtype cfg \<and> dim (deltas b) = 2 \<and> shape (deltas b) = shape (result b)
    \<and> callbacks_installed Fn_ailayer_leaky_relu_forward Fn_ailayer_leaky_relu_backward
         Fn_ailayer_leaky_relu_calc_result_shape b
    \<and> trainable_params_count b = 0"
proof (cases "layer = inp")
  case True
  have e: "p0 = b0" using True b0 p0 by simp
  have b0': "layers s inp = Some b0" using p0 e by simp
  have cfg': "leaky_relu_layers s inp = Some cfg" using cfg True by simp
  show ?thesis
    unfolding True e
    by (simp add: leaky_relu_init_same[OF b0' cfg'] links_wired_def callbacks_installed_def)
next
  case False
  then show ?thesis
    by (simp add: leaky_relu_init_distinct[OF b0 p0 cfg False] links_wired_def callbacks_installed_def)
qed

text \<open>
  Claim C4 as stated fails: the initializer does not copy the data type from the
  predecessor's result. With a Leaky ReLU struct configured for data type 2 and a
  predecessor whose result has data type 1, the node's result has data type 2 after the
  call, and so differs from its input's.
\<close>

theorem initializer_dtype_counterexample:
  "result_dtype_after (ailayer_leaky_relu 1 0 raw_net) 1 = Some 2
   \<and> result_dtype_after (ailayer_leaky_relu 1 0 raw_net) 0 = Some 1
   \<and> result_dtype_after (ailayer_leaky_relu 1 0 raw_net) 1
       \<noteq> result_dtype_after (ailayer_leaky_relu 1 0 raw_net) 0"
  by (simp add: result_dtype_after_def ailayer_leaky_relu_def set_base_def raw_net_def raw_layer_def
      raw_input_node_def raw_leaky_relu_def node_def demo_leaky_relu_def)

text \<open>
  Claim C4, amended. Called on a node struct and an initialized predecessor, either
  initializer returns the node's own address as the handle and leaves: the node's
  \<open>input_layer\<close> at the predecessor, the predecessor's \<open>output_layer\<close> at the node, the
  data type of the node's result set from the \<open>dtype\<close> member of the layer struct, the
  shape pointer and the dimensionality of the node's result equal to those of the
  predecessor's result (the shape is shared, not copied), the three callbacks installed,
  the four memory callbacks null, and the trainable-parameter count 0.
\<close>

theorem initializer_wires_node:
  "(layers s layer = Some b0 \<and> layers s inp = Some p0 \<and> sigmoid_layers s layer = Some cfg
     \<longrightarrow> (\<exists>s' b p. ailayer_sigmoid layer inp s = Some (layer, s')
          \<and> layers s' layer = Some b \<and> layers s' inp = Some p
          \<and> links_wired layer inp b p
          \<and> dtype (result b) = sg_dtype cfg
          \<and> shape (result b) = shape (result p) \<and> dim (result b) = dim (result p)
          \<and> shape (result p) = shape (result p0) \<and> dim (result p) = dim (result p0)
          \<and> shape (result b) = shape (result p0) \<and> dim (result b) = dim (result p0)
          \<and> callbacks_installed Fn_ailayer_sigmoid_forward Fn_ailayer_sigmoid_backward
               Fn_ailayer_sigmoid_calc_result_shape b
          \<and> trainable_params_count b = 0))
   \<and> (layers t layer' = Some b0' \<and> layers t inp' = Some p0' \<and> leaky_relu_layers t layer' = Some cfg'
     \<longrightarrow> (\<exists>t' b p. ailayer_leaky_relu layer' inp' t = Some (layer', t')
          \<and> layers t' layer' = Some b \<and> layers t' inp' = Some p
          \<and> links_wired layer' inp' b p
          \<and> dtype (result b) = lr_dtype cfg'
          \<and> shape (result b) = shape (result p) \<and> dim (result b) = dim (result p)
          \<and> shape (result p) = shape (result p0') \<and> dim (result p) = dim (result p0')
          \<and> shape (result b) = shape (result p0') \<and> dim (result b) = dim (result p0')
          \<and> callbacks_installed Fn_ailayer_leaky_relu_forward Fn_ailayer_leaky_relu_backward
               Fn_ailayer_leaky_relu_calc_result_shape b
          \<and> trainable_params_count b = 0))"
proof (intro conjI impI; elim conjE)
  assume h: "layers s layer = Some b0" "layers s inp = Some p0" "sigmoid_layers s layer = Some cfg"
  from sigmoid_init_facts[OF h] obtain s1 b p where f:
    "ailayer_sigmoid layer inp s = Some (layer, s1)
    \<and> layers s1 layer = Some b \<and> layers s1 inp = Some p
    \<and> links_wired layer inp b p
    \<and> dtype (result b) = sg_dtype cfg
    \<and> shape (result b) = shape (result p0) \<and> dim (result b) = dim (result p0)
    \<and> shape (result p) = shape (result p0) \<and> dim (result p) = dim (result p0)
    \<and> dtype (deltas b) = sg_dtype cfg \<and> dim (deltas b) = 2 \<and> shape (deltas b) = shape (result b)
    \<and> callbacks_installed Fn_ailayer_sigmoid_forward Fn_ailayer_sigmoid_backward
         Fn_ailayer_sigmoid_calc_result_shape b
    \<and> trainable_params_count b = 0"
    by blast
  show "\<exists>s' b p. ailayer_sigmoid layer inp s = Some (layer, s')
          \<and> layers s' layer = Some b \<and> layers s' inp = Some p
          \<and> links_wired layer inp b p
          \<and> dtype (result b) = sg_dtype cfg
          \<and> shape (result b) = shape (result p) \<and> dim (result b) = dim (result p)
          \<and> shape (result p) = shape (result p0) \<and> dim (result p) = dim (result p0)
          \<and> shape (result b) = shape (result p0) \<and> dim (result b) = dim (result p0)
          \<and> callbacks_installed Fn_ailayer_sigmoid_forward Fn_ailayer_sigmoid_backward
               Fn_ailayer_sigmoid_calc_result_shape b
          \<and> trainable_params_count b = 0"
    using f by (intro exI[of _ s1] exI[of _ b] exI[of _ p]) simp
next
  assume h: "layers t layer' = Some b0'" "layers t inp' = Some p0'" "leaky_relu_layers t layer' = Some cfg'"
  from leaky_relu_init_facts[OF h] obtain s1 b p where f:
    "ailayer_leaky_relu layer' inp' t = Some (layer', s1)
    \<and> layers s1 layer' = Some b \<and> layers s1 inp' = Some p
    \<and> links_wired layer' inp' b p
    \<and> dtype (result b) = lr_dtype cfg'
    \<and> shape (result b) = shape (result p0') \<and> dim (result b) = dim (result p0')
    \<and> shape (result p) = shape (result p0') \<and> dim (result p) = dim (result p0')
    \<and> dtype (deltas b) = lr_dtype cfg' \<and> dim (deltas b) = 2 \<and> shape (deltas b) = shape (result b)
    \<and> callbacks_installed Fn_ailayer_leaky_relu_forward Fn_ailayer_leaky_relu_backward
         Fn_ailayer_leaky_relu_calc_result_shape b
    \<and> trainable_params_count b = 0"
    by blast
  show "\<exists>t' b p. ailayer_leaky_relu layer' inp' t = Some (layer', t')
          \<and> layers t' layer' = Some b \<and> layers t' inp' = Some p
          \<and> links_wired layer' inp' b p
          \<and> dtype (result b) = lr_dtype cfg'
          \<and> shape (result b) = shape (result p) \<and> dim (result b) = dim (result p)
          \<and> shape (result p) = shape (result p0') \<and> dim (result p) = dim (result p0')
          \<and> shape (result b) = shape (result p0') \<and> dim (result b) = dim (result p0')
          \<and> callbacks_installed Fn_ailayer_leaky_relu_forward Fn_ailayer_leaky_relu_backward
               Fn_ailayer_leaky_relu_calc_result_shape b
          \<and> trainable_params_count b = 0"
    using f by (intro exI[of _ s1] exI[of _ b] exI[of _ p]) simp
qed

theorem initializer_wires_node_witness:
  "(layers raw_net 2 = Some raw_layer \<and> layers raw_net 0 = Some raw_input_node
      \<and> sigmoid_layers raw_net 2 = Some demo_sigmoid)
   \<and> (\<exists>s' b p. ailayer_sigmoid 2 0 raw_net = Some (2, s')
          \<and> layers s' 2 = Some b \<and> layers s' 0 = Some p
          \<and> links_wired 2 0 b p
          \<and> dtype (result b) = sg_dtype demo_sigmoid
          \<and> shape (result b) = shape (result p) \<and> dim (result b) = dim (result p)
          \<and> shape (result p) = shape (result raw_input_node) \<and> dim (result p) = dim (result raw_input_node)
          \<and> shape (result b) = shape (result raw_input_node) \<and> dim (result b) = dim (result raw_input_node)
          \<and> callbacks_installed Fn_ailayer_sigmoid_forward Fn_ailayer_sigmoid_backward
               Fn_ailayer_sigmoid_calc_result_shape b
          \<and> trainable_params_count b = 0)
   \<and> (layers raw_net 1 = Some raw_layer \<and> layers raw_net 0 = Some raw_input_node
      \<and> leaky_relu_layers raw_net 1 = Some raw_leaky_relu)
   \<and> (\<exists>t' b p. ailayer_leaky_relu 1 0 raw_net = Some (1, t')
          \<and> layers t' 1 = Some b \<and> layers t' 0 = Some p
          \<and> links_wired 1 0 b p
          \<and> dtype (result b) = lr_dtype raw_leaky_relu
          \<and> shape (result b) = shape (result p) \<and> dim (result b) = dim (result p)
          \<and> shape (result p) = shape (result raw_input_node) \<and> dim (result p) = dim (result raw_input_node)
          \<and> shape (result b) = shape (result raw_input_node) \<and> dim (result b) = dim (result raw_input_node)
          \<and> callbacks_installed Fn_ailayer_leaky_relu_forward Fn_ailayer_leaky_relu_backward
               Fn_ailayer_leaky_relu_calc_result_shape b
          \<and> trainable_params_count b = 0)"
proof -
  have hS: "layers raw_net 2 = Some raw_layer \<and> layers raw_net 0 = Some raw_input_node
      \<and> sigmoid_layers raw_net 2 = Some demo_sigmoid"
    and hL: "layers raw_net 1 = Some raw_layer \<and> layers raw_net 0 = Some raw_input_node
      \<and> leaky_relu_layers raw_net 1 = Some raw_leaky_relu"
    by (simp_all add: raw_net_def)
  note T = initializer_wires_node[of raw_net 2 raw_layer 0 raw_input_node demo_sigmoid
      raw_net 1 raw_layer 0 raw_input_node raw_leaky_relu]
  from T[THEN conjunct1, rule_format, OF hS] T[THEN conjunct2, rule_format, OF hL] hS hL
  show ?thesis by blast
qed

text \<open>
  Claim C10. After either initializer the node's deltas tensor has dimensionality 2,
  whatever the predecessor's result has, while the node's result tensor has the
  predecessor's dimensionality; the deltas and the result share one shape pointer. So for
  a predecessor whose result is not 2-dimensional the two dimensionalities differ.
\<close>

theorem deltas_dim_fixed:
  "(layers s layer = Some b0 \<and> layers s inp = Some p0 \<and> sigmoid_layers s layer = Some cfg
     \<longrightarrow> (\<exists>s' b. ailayer_sigmoid layer inp s = Some (layer, s') \<and> layers s' layer = Some b
          \<and> dim (deltas b) = 2 \<and> dim (result b) = dim (result p0)
          \<and> shape (deltas b) = shape (result b)
          \<and> (dim (result p0) \<noteq> 2 \<longrightarrow> dim (deltas b) \<noteq> dim (result b))))
   \<and> (layers t layer' = Some b0' \<and> layers t inp' = Some p0' \<and> leaky_relu_layers t layer' = Some cfg'
     \<longrightarrow> (\<exists>t' b. ailayer_leaky_relu layer' inp' t = Some (layer', t') \<and> layers t' layer' = Some b
          \<and> dim (deltas b) = 2 \<and> dim (result b) = dim (result p0')
          \<and> shape (deltas b) = shape (result b)
          \<and> (dim (result p0') \<noteq> 2 \<longrightarrow> dim (deltas b) \<noteq> dim (result b))))"
proof (intro conjI impI; elim conjE)
  assume h: "layers s layer = Some b0" "layers s inp = Some p0" "sigmoid_layers s layer = Some cfg"
  from sigmoid_init_facts[OF h] obtain s1 b p where f:
    "ailayer_sigmoid layer inp s = Some (layer, s1)
    \<and> layers s1 layer = Some b \<and> layers s1 inp = Some p
    \<and> links_wired layer inp b p
    \<and> dtype (result b) = sg_dtype cfg
    \<and> shape (result b) = shape (result p0) \<and> dim (result b) = dim (result p0)
    \<and> shape (result p) = shape (result p0) \<and> dim (result p) = dim (result p0)
    \<and> dtype (deltas b) = sg_dtype cfg \<and> dim (deltas b) = 2 \<and> shape (deltas b) = shape (result b)
    \<and> callbacks_installed Fn_ailayer_sigmoid_forward Fn_ailayer_sigmoid_backward
         Fn_ailayer_sigmoid_calc_result_shape b
    \<and> trainable_params_count b = 0"
    by blast
  show "\<exists>s' b. ailayer_sigmoid layer inp s = Some (layer, s') \<and> layers s' layer = Some b
          \<and> dim (deltas b) = 2 \<and> dim (result b) = dim (result p0)
          \<and> shape (deltas b) = shape (result b)
          \<and> (dim (result p0) \<noteq> 2 \<longrightarrow> dim (deltas b) \<noteq> dim (result b))"
    using f by (intro exI[of _ s1] exI[of _ b]) simp
next
  assume h: "layers t layer' = Some b0'" "layers t inp' = Some p0'" "leaky_relu_layers t layer' = Some cfg'"
  from leaky_relu_init_facts[OF h] obtain s1 b p where f:
    "ailayer_leaky_relu layer' inp' t = Some (layer', s1)
    \<and> layers s1 layer' = Some b \<and> layers s1 inp' = Some p
    \<and> links_wired layer' inp' b p
    \<and> dtype (result b) = lr_dtype cfg'
    \<and> shape (result b) = shape (result p0') \<and> dim (result b) = dim (result p0')
    \<and> shape (result p) = shape (result p0') \<and> dim (result p) = dim (result p0')
    \<and> dtype (deltas b) = lr_dtype cfg' \<and> dim (deltas b) = 2 \<and> shape (deltas b) = shape (result b)
    \<and> callbacks_installed Fn_ailayer_leaky_relu_forward Fn_ailayer_leaky_relu_backward
         Fn_ailayer_leaky_relu_calc_result_shape b
    \<and> trainable_params_count b = 0"
    by blast
  show "\<exists>t' b. ailayer_leaky_relu layer' inp' t = Some (layer', t') \<and> layers t' layer' = Some b
          \<and> dim (deltas b) = 2 \<and> dim (result b) = dim (result p0')
          \<and> shape (deltas b) = shape (result b)
          \<and> (dim (result p0') \<noteq> 2 \<longrightarrow> dim (deltas b) \<noteq> dim (result b))"
    using f by (intro exI[of _ s1] exI[of _ b]) simp
qed

theorem deltas_dim_fixed_witness:
  "(layers raw_net 2 = Some raw_layer \<and> layers raw_net 0 = Some raw_input_node
      \<and> sigmoid_layers raw_net 2 = Some demo_sigmoid)
   \<and> (\<exists>s' b. ailayer_sigmoid 2 0 raw_net = Some (2, s') \<and> layers s' 2 = Some b
          \<and> dim (deltas b) = 2 \<and> dim (result b) = dim (result raw_input_node)
          \<and> shape (deltas b) = shape (result b)
          \<and> (dim (result raw_input_node) \<noteq> 2 \<longrightarrow> dim (deltas b) \<noteq> dim (result b)))
   \<and> (layers raw_net 1 = Some raw_layer \<and> layers raw_net 0 = Some raw_input_node
      \<and> leaky_relu_layers raw_net 1 = Some raw_leaky_relu)
   \<and> (\<exists>t' b. ailayer_leaky_relu 1 0 raw_net = Some (1, t') \<and> layers t' 1 = Some b
          \<and> dim (deltas b) = 2 \<and> dim (result b) = dim (result raw_input_node)
          \<and> shape (deltas b) = shape (result b)
          \<and> (dim (result raw_input_node) \<noteq> 2 \<longrightarrow> dim (deltas b) \<noteq> dim (result b)))
   \<and> dim (result raw_input_node) \<noteq> 2"
proof -
  have hS: "layers raw_net 2 = Some raw_layer \<and> layers raw_net 0 = Some raw_input_node
      \<and> sigmoid_layers raw_net 2 = Some demo_sigmoid"
    and hL: "layers raw_net 1 = Some raw_layer \<and> layers raw_net 0 = Some raw_input_node
      \<and> leaky_relu_layers raw_net 1 = Some raw_leaky_relu"
    by (simp_all add: raw_net_def)
  have d: "dim (result raw_input_node) \<noteq> 2" by (simp add: raw_input_node_def)
  note T = deltas_dim_fixed[of raw_net 2 raw_layer 0 raw_input_node demo_sigmoid
      raw_net 1 raw_layer 0 raw_input_node raw_leaky_relu]
  from T[THEN conjunct1, rule_format, OF hS] T[THEN conjunct2, rule_format, OF hL] hS hL d
  show ?thesis by blast
qed

end
